theory Spec2Isabelle
  imports Complex_Main "HOL-Library.Sublist"
begin

section \<open>Python values shared by the models\<close>

text \<open>
  Exceptions are values. Only the classes the orchestration code raises, catches or
  receives from its collaborators are listed. All of them derive from Python's
  \<open>Exception\<close>, so an \<open>except Exception\<close> clause catches each of them;
  \<open>KeyboardInterrupt\<close> and \<open>SystemExit\<close> are outside the model.
\<close>

datatype exn =
    RunnerNotFoundError string
  | RunnerAmbiguousError string
  | ValueError string
  | RuntimeError string
  | OSError string
  | AttributeError string
  | TypeError string
  | IptablesError string
  | SshError string
  | CalledProcessError int "string list" "string option" "string option"
  | TimeoutExpired "string list" "int option" "string option" "string option"
  | OverflowError string
  | ExperimentError exn

subsection \<open>Text formatting\<close>

text \<open>\<open>str(n)\<close> for a Python int: decimal digits, a leading minus sign when negative.\<close>

definition digit_char :: "nat \<Rightarrow> char" where
  "digit_char d = ''0123456789'' ! (d mod 10)"

function str_nat :: "nat \<Rightarrow> string" where
  "str_nat n = (if n < 10 then [digit_char n] else str_nat (n div 10) @ [digit_char (n mod 10)])"
  by pat_completeness auto
termination
  by (relation "measure id") auto

declare str_nat.simps [simp del]

definition str_int :: "int \<Rightarrow> string" where
  "str_int i = (if i < 0 then CHR ''-'' # str_nat (nat (- i)) else str_nat (nat i))"

text \<open>\<open>sep.join(parts)\<close>.\<close>

fun join :: "string \<Rightarrow> string list \<Rightarrow> string" where
  "join sep [] = []"
| "join sep [x] = x"
| "join sep (x # y # ys) = x @ sep @ join sep (y # ys)"

text \<open>
  The format specifications \<open>{s:10s}\<close> and \<open>{n:2d}\<close>: a string is padded on the
  right, a number on the left, with spaces up to the width; neither is truncated.
\<close>

definition fmt_s :: "nat \<Rightarrow> string \<Rightarrow> string" where
  "fmt_s width s = s @ replicate (width - length s) CHR '' ''"

definition fmt_d :: "nat \<Rightarrow> int \<Rightarrow> string" where
  "fmt_d width n = replicate (width - length (str_int n)) CHR '' '' @ str_int n"

section \<open>Experiment context: the iteration ledger and its summary\<close>

text \<open>
  \<open>_iteration_results\<close> is a \<open>defaultdict(list)\<close>: phases keep their order of first
  insertion, each with its list of \<open>(iteration_index, success)\<close> pairs. An association
  list keeps that order.
\<close>

type_synonym ledger = "(string \<times> (int \<times> bool) list) list"

fun record_iteration_result :: "ledger \<Rightarrow> string \<Rightarrow> int \<Rightarrow> bool \<Rightarrow> ledger" where
  "record_iteration_result [] phase iteration_index success =
     [(phase, [(iteration_index, success)])]"
| "record_iteration_result ((p, results) # rest) phase iteration_index success =
     (if p = phase then (p, results @ [(iteration_index, success)]) # rest
      else (p, results) # record_iteration_result rest phase iteration_index success)"

definition summary_line :: "string \<times> (int \<times> bool) list \<Rightarrow> string" where
  "summary_line pr =
     (let phase = fst pr; results = snd pr;
          total = int (length results);
          failed = map fst (filter (\<lambda>r. \<not> snd r) results);
          success = total - int (length failed);
          fail_str = (if failed \<noteq> []
                      then '' failed: ('' @ join '', '' (map str_int failed) @ '')''
                      else '''')
      in fmt_s 10 phase @ '': '' @ fmt_d 2 success @ '' / '' @ fmt_d 2 total @ fail_str)"

definition summary_text :: "ledger \<Rightarrow> string" where
  "summary_text results =
     ''Experiment summary:'' @ [CHR 0x0A] @ join [CHR 0x0A] (map summary_line results)"

text \<open>
  \<open>summarise_iterations\<close> writes the summary to \<open>experiment_summary.txt\<close> and returns
  it. \<open>write_ok\<close> is the outcome of \<open>Path.write_text\<close>: an \<open>OSError\<close> there is
  turned into a \<open>RuntimeError\<close>.
\<close>

definition summarise_iterations :: "ledger \<Rightarrow> bool \<Rightarrow> exn + string" where
  "summarise_iterations results write_ok =
     (if write_ok then Inr (summary_text results)
      else Inl (RuntimeError ''Failed to write iteration summary''))"

text \<open>
  The comparison of \<open>tests/test_context.py\<close>, which reads the summary with all white
  space removed: \<open>canon = re.sub(r"\s+", "", summary)\<close>. The characters are those
  that \<open>\s\<close> matches among the first 256 code points.
\<close>

definition is_space :: "char \<Rightarrow> bool" where
  "is_space c =
     (c \<in> set [CHR 0x09, CHR 0x0A, CHR 0x0B, CHR 0x0C, CHR 0x0D, CHR 0x1C, CHR 0x1D, CHR 0x1E,
               CHR 0x1F, CHR 0x20, CHR 0x85, CHR 0xA0])"

definition canon :: "string \<Rightarrow> string" where
  "canon s = filter (\<lambda>c. \<not> is_space c) s"

text \<open>The ledger of the scenario: two baseline iterations, then one instrumented.\<close>

definition scenario_ledger :: ledger where
  "scenario_ledger =
     record_iteration_result
       (record_iteration_result
          (record_iteration_result [] ''no_frida'' 1 True)
          ''no_frida'' 2 False)
       ''frida'' 1 True"

section \<open>Runner registry and dispatch\<close>

datatype Platform = Android | IOS

datatype NetworkProfile = Lan | Wan

record AppConfig =
  platform :: Platform
  network_profile :: NetworkProfile
  frida_iterations :: int
  no_frida_iterations :: int

record ExperimentContext =
  package_name :: string
  phone_id :: string
  device_name :: string
  config :: AppConfig
  iteration_results :: ledger

text \<open>
  A registry entry holds the runner class, its display name and its priority. The class
  is present through its two methods: \<open>can_handle(cfg)\<close> and \<open>run(ctx)\<close>. Running
  an experiment acts on the world outside the program (type \<open>'w\<close>) and either returns
  or raises.
\<close>

record 'w Entry =
  can_handle :: "AppConfig \<Rightarrow> bool"
  run :: "ExperimentContext \<Rightarrow> 'w \<Rightarrow> exn option \<times> 'w"
  name :: string
  priority :: int

definition tied_text :: "'w Entry list \<Rightarrow> string" where
  "tied_text top_candidates =
     join '', '' (map (\<lambda>e. name e @ ''(prio='' @ str_int (priority e) @ '')'') top_candidates)"

text \<open>
  \<open>sorted(matches, key=lambda e: e.priority, reverse=True)\<close> is a stable sort by
  descending priority; \<open>sort_key\<close> on the negated priority is one. \<open>hd\<close> is applied
  to non-empty lists only: \<open>matches\<close> is not empty past the first test, and
  \<open>top_candidates\<close> has one element where its head is taken.
\<close>

definition dispatch :: "'w Entry list \<Rightarrow> ExperimentContext \<Rightarrow> 'w \<Rightarrow> exn option \<times> 'w" where
  "dispatch registry ctx w =
     (let cfg = config ctx;
          matches = filter (\<lambda>e. can_handle e cfg) registry
      in if matches = []
         then (Some (RunnerNotFoundError ''No runner matches this configuration.''), w)
         else
           let matches_sorted = sort_key (\<lambda>e. - priority e) matches;
               top_priority = priority (hd matches_sorted);
               top_candidates = filter (\<lambda>e. priority e = top_priority) matches_sorted
           in if length top_candidates = 1
              then run (hd top_candidates) ctx w
              else (Some (RunnerAmbiguousError
                            (''Ambiguous config; multiple runners tie: '' @ tied_text top_candidates)),
                    w))"

text \<open>The capability checks of the four runners of the repository.\<close>

definition AndroidLanRunner_can_handle :: "AppConfig \<Rightarrow> bool" where
  "AndroidLanRunner_can_handle cfg = (platform cfg = Android \<and> network_profile cfg = Lan)"

definition AndroidWanRunner_can_handle :: "AppConfig \<Rightarrow> bool" where
  "AndroidWanRunner_can_handle cfg = (platform cfg = Android \<and> network_profile cfg = Wan)"

definition iOSLanRunner_can_handle :: "AppConfig \<Rightarrow> bool" where
  "iOSLanRunner_can_handle cfg = (platform cfg = IOS \<and> network_profile cfg = Lan)"

definition iOSWanRunner_can_handle :: "AppConfig \<Rightarrow> bool" where
  "iOSWanRunner_can_handle cfg = (platform cfg = IOS \<and> network_profile cfg = Wan)"

section \<open>Statements that may raise\<close>

text \<open>
  A statement acts on a state and either completes or raises. The combinators below are
  Python's sequencing, \<open>if\<close>, \<open>try/except Exception\<close>, \<open>try/finally\<close> and
  \<open>for\<close>.
\<close>

type_synonym 's stmt = "'s \<Rightarrow> exn option \<times> 's"

definition skip :: "'s stmt" where
  "skip s = (None, s)"

definition raise :: "exn \<Rightarrow> 's stmt" where
  "raise e s = (Some e, s)"

definition assign :: "('s \<Rightarrow> 's) \<Rightarrow> 's stmt" where
  "assign f s = (None, f s)"

fun seq :: "'s stmt list \<Rightarrow> 's stmt" where
  "seq [] s = (None, s)"
| "seq (c # cs) s = (case c s of (Some e, s') \<Rightarrow> (Some e, s') | (None, s') \<Rightarrow> seq cs s')"

definition when_true :: "bool \<Rightarrow> 's stmt \<Rightarrow> 's stmt" where
  "when_true b c = (if b then c else skip)"

definition try_except :: "'s stmt \<Rightarrow> (exn \<Rightarrow> 's stmt) \<Rightarrow> 's stmt" where
  "try_except body handler s =
     (case body s of (Some e, s') \<Rightarrow> handler e s' | (None, s') \<Rightarrow> (None, s'))"

text \<open>
  \<open>try: body finally: cleanup\<close>. The cleanup always runs; an exception it raises
  replaces the outcome of the body.
\<close>

definition try_finally :: "'s stmt \<Rightarrow> 's stmt \<Rightarrow> 's stmt" where
  "try_finally body cleanup s =
     (case body s of (r, s') \<Rightarrow>
        (case cleanup s' of (Some e, s'') \<Rightarrow> (Some e, s'') | (None, s'') \<Rightarrow> (r, s'')))"

fun for_each :: "'i list \<Rightarrow> ('i \<Rightarrow> 's stmt) \<Rightarrow> 's stmt" where
  "for_each [] body s = (None, s)"
| "for_each (i # rest) body s =
     (case body i s of (Some e, s') \<Rightarrow> (Some e, s') | (None, s') \<Rightarrow> for_each rest body s')"

section \<open>Process handles and the bounded command runner\<close>

datatype signal = SIGTERM | SIGKILL

text \<open>
  What the code does to the operating system, in order; the state of these statements
  is the list of calls made so far. \<open>Direct sig\<close> is \<open>Popen.terminate()\<close> or
  \<open>Popen.kill()\<close>, which signal the child alone.
\<close>

datatype proc_event =
    Spawn "string list"
  | Communicate "int option"
  | Getpgid
  | Killpg int signal
  | Direct signal
  | Wait int

definition os_call :: "proc_event \<Rightarrow> exn option \<Rightarrow> proc_event list stmt" where
  "os_call ev result calls = (result, calls @ [ev])"

text \<open>
  The outcomes of the three calls one signalling attempt can make: \<open>os.getpgid\<close>,
  \<open>os.killpg\<close> and the fallback on the \<open>Popen\<close> object.
\<close>

record signal_env =
  getpgid_result :: "exn + int"
  killpg_result :: "exn option"
  direct_result :: "exn option"

text \<open>\<open>os.killpg(os.getpgid(pid), sig)\<close>: the group is signalled only when it was found.\<close>

definition killpg_getpgid :: "signal \<Rightarrow> signal_env \<Rightarrow> proc_event list stmt" where
  "killpg_getpgid sig env =
     (case getpgid_result env of
        Inl e \<Rightarrow> os_call Getpgid (Some e)
      | Inr pgid \<Rightarrow> seq [os_call Getpgid None, os_call (Killpg pgid sig) (killpg_result env)])"

text \<open>
  The body shared by \<open>ProcessHandle.terminate\<close>, \<open>ProcessHandle.kill_tree\<close> and the
  two inline blocks of \<open>run_and_wait\<close>:
  \<^verbatim>\<open>
  try:
      os.killpg(os.getpgid(pid), sig)
  except Exception:
      try:
          popen.kill()      # popen.terminate() for SIGTERM
      except Exception:
          pass
  \<close>
\<close>

definition signal_tree :: "signal \<Rightarrow> signal_env \<Rightarrow> proc_event list stmt" where
  "signal_tree sig env =
     try_except (killpg_getpgid sig env)
       (\<lambda>e. try_except (os_call (Direct sig) (direct_result env)) (\<lambda>e. skip))"

definition terminate :: "signal_env \<Rightarrow> proc_event list stmt" where
  "terminate env = signal_tree SIGTERM env"

definition kill_tree :: "signal_env \<Rightarrow> proc_event list stmt" where
  "kill_tree env = signal_tree SIGKILL env"

text \<open>
  \<open>run_and_wait\<close>. The environment gives the outcome of each call site: the first
  \<open>communicate(timeout=timeout)\<close>, the graceful signalling, \<open>proc.wait(timeout=2)\<close>,
  the forceful signalling and the final \<open>communicate(timeout=1)\<close>.
\<close>

datatype communicate_outcome =
    Completed string string int
  | TimedOut "string option" "string option"

record run_env =
  communicate_first :: communicate_outcome
  term_env :: signal_env
  wait_grace :: "exn option"
  kill_env :: signal_env
  communicate_final :: "exn + string \<times> string"

record CompletedProcess =
  cp_args :: "string list"
  returncode :: int
  stdout :: "string option"
  stderr :: "string option"

text \<open>The calls of the \<open>except subprocess.TimeoutExpired\<close> block, up to its \<open>raise\<close>.\<close>

definition on_timeout_calls :: "run_env \<Rightarrow> proc_event list stmt" where
  "on_timeout_calls env =
     seq [signal_tree SIGTERM (term_env env),
          try_except (os_call (Wait 2) (wait_grace env))
            (\<lambda>e. signal_tree SIGKILL (kill_env env)),
          try_except
            (os_call (Communicate (Some 1))
               (case communicate_final env of Inl e \<Rightarrow> Some e | Inr r \<Rightarrow> None))
            (\<lambda>e. skip)]"

text \<open>
  The output the raised \<open>TimeoutExpired\<close> carries: what the final read returned, or,
  when that read raised, the \<open>output\<close> and \<open>stderr\<close> of the first timeout.
\<close>

definition captured_output ::
  "run_env \<Rightarrow> string option \<Rightarrow> string option \<Rightarrow> string option \<times> string option"
where
  "captured_output env e_output e_stderr =
     (case communicate_final env of
        Inr (out, err) \<Rightarrow> (Some out, Some err)
      | Inl e \<Rightarrow> (e_output, e_stderr))"

definition run_and_wait ::
  "string list \<Rightarrow> int option \<Rightarrow> bool \<Rightarrow> run_env \<Rightarrow> proc_event list \<times> (exn + CompletedProcess)"
where
  "run_and_wait args timeout check env =
     (case communicate_first env of
        TimedOut e_output e_stderr \<Rightarrow>
          (let after = on_timeout_calls env [Spawn args, Communicate timeout];
               captured = captured_output env e_output e_stderr
           in (snd after,
               case fst after of
                 Some e \<Rightarrow> Inl e
               | None \<Rightarrow> Inl (TimeoutExpired args timeout (fst captured) (snd captured))))
      | Completed out err rc \<Rightarrow>
          ([Spawn args, Communicate timeout],
           if check \<and> rc \<noteq> 0
           then Inl (CalledProcessError rc args (Some out) (Some err))
           else Inr \<lparr>cp_args = args, returncode = rc, stdout = Some out, stderr = Some err\<rparr>))"


text \<open>A run in which the process ignores the graceful signal.\<close>

definition env_ignores_sigterm :: run_env where
  "env_ignores_sigterm =
     \<lparr>communicate_first = TimedOut None None,
      term_env = \<lparr>getpgid_result = Inr 4242, killpg_result = None, direct_result = None\<rparr>,
      wait_grace = Some (TimeoutExpired [''sleep'', ''60''] (Some 2) None None),
      kill_env = \<lparr>getpgid_result = Inr 4242, killpg_result = None, direct_result = None\<rparr>,
      communicate_final = Inr ('''', '''')\<rparr>"

section \<open>Timing source\<close>

text \<open>
  What \<open>yaml.safe_load\<close> returns. Mapping keys are strings or integers here; the code
  stores each value under \<open>str(key)\<close>.
\<close>

datatype ykey = KStr string | KInt int

datatype yaml =
    YNull
  | YBool bool
  | YInt int
  | YFloat real
  | YStr string
  | YSeq "yaml list"
  | YMap "(ykey \<times> yaml) list"

fun str_key :: "ykey \<Rightarrow> string" where
  "str_key (KStr s) = s"
| "str_key (KInt i) = str_int i"

text \<open>Python truthiness, as \<open>yaml.safe_load(raw_text) or {}\<close> tests it.\<close>

fun truthy :: "yaml \<Rightarrow> bool" where
  "truthy YNull = False"
| "truthy (YBool b) = b"
| "truthy (YInt i) = (i \<noteq> 0)"
| "truthy (YFloat x) = (x \<noteq> 0)"
| "truthy (YStr s) = (s \<noteq> [])"
| "truthy (YSeq xs) = (xs \<noteq> [])"
| "truthy (YMap kvs) = (kvs \<noteq> [])"

text \<open>\<open>isinstance(value, (int, float))\<close>: \<open>bool\<close> is a subclass of \<open>int\<close>.\<close>

fun is_int_or_float :: "yaml \<Rightarrow> bool" where
  "is_int_or_float (YBool b) = True"
| "is_int_or_float (YInt i) = True"
| "is_int_or_float (YFloat x) = True"
| "is_int_or_float _ = False"

text \<open>
  \<open>float(value)\<close> for a value that passed the test above. Seconds are real numbers in
  the model: the rounding of an integer to the nearest double is left out, the
  \<open>OverflowError\<close> for an integer beyond the range of a double is kept.
\<close>

definition float_max_int :: int where
  "float_max_int = 2 ^ 1024 - 2 ^ 970"

fun py_float :: "yaml \<Rightarrow> exn + real" where
  "py_float (YBool b) = Inr (if b then 1 else 0)"
| "py_float (YInt i) =
     (if \<bar>i\<bar> < float_max_int then Inr (of_int i)
      else Inl (OverflowError ''int too large to convert to float''))"
| "py_float (YFloat x) = Inr x"
| "py_float _ = Inl (TypeError ''float() argument must be a string or a real number'')"

text \<open>
  The loop over \<open>raw.items()\<close>: the first value that is not a number stops it with a
  \<open>ValueError\<close>; a later duplicate of a key overwrites the earlier one.
\<close>

fun parse_items :: "(ykey \<times> yaml) list \<Rightarrow> (string \<rightharpoonup> real) \<Rightarrow> exn + (string \<rightharpoonup> real)" where
  "parse_items [] parsed = Inr parsed"
| "parse_items ((key, v) # rest) parsed =
     (if \<not> is_int_or_float v
      then Inl (ValueError (''Sleep time for '' @ str_key key @ '' must be a number of seconds''))
      else case py_float v of
             Inl e \<Rightarrow> Inl e
           | Inr x \<Rightarrow> parse_items rest (parsed(str_key key \<mapsto> x)))"

record Cache =
  last_modified_time :: real
  parsed_values :: "(string \<rightharpoonup> real) option"

text \<open>
  The backing file as one call of \<open>_load_if_file_changed\<close> meets it: absent
  (\<open>stat\<close> raises \<open>FileNotFoundError\<close>), or present with its \<open>st_mtime\<close> and the
  outcome of reading and parsing it (\<open>read_text\<close> followed by \<open>yaml.safe_load\<close>).
\<close>

datatype backing_file = Absent | Present real "exn + yaml"

record SleepTimes =
  path :: "string option"
  cache :: Cache

definition SleepTimes_init :: "string option \<Rightarrow> SleepTimes" where
  "SleepTimes_init p = \<lparr>path = p, cache = \<lparr>last_modified_time = - 1, parsed_values = None\<rparr>\<rparr>"

definition load_if_file_changed :: "backing_file \<Rightarrow> SleepTimes \<Rightarrow> exn option \<times> SleepTimes" where
  "load_if_file_changed file self =
     (if path self = None
      then (if parsed_values (cache self) = None
            then (None, self\<lparr>cache := \<lparr>last_modified_time = - 1, parsed_values = Some Map.empty\<rparr>\<rparr>)
            else (None, self))
      else case file of
        Absent \<Rightarrow>
          (None, self\<lparr>cache := \<lparr>last_modified_time = - 1, parsed_values = Some Map.empty\<rparr>\<rparr>)
      | Present current_modified_time content \<Rightarrow>
          if current_modified_time = last_modified_time (cache self)
             \<and> parsed_values (cache self) \<noteq> None
          then (None, self)
          else case content of
            Inl e \<Rightarrow> (Some e, self)
          | Inr loaded \<Rightarrow>
              (let raw = (if truthy loaded then loaded else YMap [])
               in case raw of
                    YMap items \<Rightarrow>
                      (case parse_items items Map.empty of
                         Inl e \<Rightarrow> (Some e, self)
                       | Inr parsed \<Rightarrow>
                           (None, self\<lparr>cache := \<lparr>last_modified_time = current_modified_time,
                                                  parsed_values = Some parsed\<rparr>\<rparr>))
                  | _ \<Rightarrow> (Some (ValueError ''Sleep times file must be a mapping''), self)))"

text \<open>
  \<open>get(key, default)\<close>: reload when needed, then look the key up.
  \<open>self._cache.parsed_values or {}\<close> reads an unset or empty cache as the empty
  mapping.
\<close>

definition get :: "backing_file \<Rightarrow> SleepTimes \<Rightarrow> string \<Rightarrow> real \<Rightarrow> (exn + real) \<times> SleepTimes" where
  "get file self key default_value =
     (case load_if_file_changed file self of
        (Some e, self') \<Rightarrow> (Inl e, self')
      | (None, self') \<Rightarrow>
          (let data = (case parsed_values (cache self') of None \<Rightarrow> Map.empty | Some d \<Rightarrow> d)
           in (Inr (case data key of None \<Rightarrow> default_value | Some x \<Rightarrow> x), self')))"

section \<open>Phase and iteration state machines\<close>

text \<open>
  The calls the runners make on their collaborators. A call is logged when it is made,
  whether it returns or raises. A capture file is named by its file name; the stop calls
  carry the process id they are given.
\<close>

datatype script = Up | Down

datatype host = PhoneSsh | RemoteServerSsh

datatype tool = ServerTcpdump | Mitmdump | Frida | Objection

datatype action =
    MkdirTargetDir
  | SshCreateFolder
  | ApplyRules script
  | ServerStartTcpdump
  | StartPcapdroid string
  | PhoneStartTcpdump string
  | SshStartRemoteTcpdump host string
  | StartMitmdump
  | StartFrida
  | StartObjection
  | StartApp
  | TimedSleep string
  | TriggerTaps
  | StopPcapdroid
  | PhoneStopTcpdump "int option"
  | SshStopRemoteTcpdump host "int option"
  | KillTree tool
  | PullFileToServer string
  | DeleteFileFromPhone string
  | DownloadRemoteFile host string
  | ResetTerminal
  | StopApp
  | PullBluetoothLog
  | UninstallApp
  | Reboot
  | WriteSummary

text \<open>
  The world outside the program, as one phase meets it: for the call \<open>a\<close> made in
  iteration \<open>i\<close> (0 before the loop), \<open>outcome w i a\<close> is the exception it raises, if
  any; \<open>started_pid w i a\<close> is the process id a start call returns; \<open>taps_result w i\<close>
  is what \<open>trigger_taps_on_phone\<close> returns. \<open>TimedSleep key\<close> stands for
  \<open>ctx.sleep_times.get(key, default)\<close> followed by \<open>time.sleep\<close>.
\<close>

record world =
  outcome :: "int \<Rightarrow> action \<Rightarrow> exn option"
  started_pid :: "int \<Rightarrow> action \<Rightarrow> int"
  taps_result :: "int \<Rightarrow> bool"

text \<open>
  The state of a phase: the calls made, the ledger of the context, and the local
  variables of \<open>_iteration_phase\<close> (the union over the runners). A process handle is
  present by the tool it runs; \<open>None\<close> is Python's \<open>None\<close>.
\<close>

record phase_state =
  trace :: "action list"
  results :: ledger
  phone_pcap_name :: "string option"
  phone_tcpdump_pid :: "int option"
  server_process :: "tool option"
  mitm_process :: "tool option"
  frida_process :: "tool option"
  remote_pid :: "int option"
  remote_tcpdump_filename :: "string option"
  remote_pcap_name :: "string option"
  success :: bool

definition call :: "(action \<Rightarrow> exn option) \<Rightarrow> action \<Rightarrow> phase_state stmt" where
  "call oc a s = (oc a, s\<lparr>trace := trace s @ [a]\<rparr>)"

definition phase_name :: "bool \<Rightarrow> string" where
  "phase_name use_frida = (if use_frida then ''frida'' else ''no_frida'')"

definition pcap_name :: "ExperimentContext \<Rightarrow> bool \<Rightarrow> int \<Rightarrow> string \<Rightarrow> string" where
  "pcap_name ctx use_frida i side =
     ''iteration-'' @ str_int i @ ''-'' @ phase_name use_frida @ ''-'' @ side @ ''-''
       @ device_name ctx @ ''.pcap''"

definition num_iterations :: "ExperimentContext \<Rightarrow> bool \<Rightarrow> int" where
  "num_iterations ctx use_frida =
     (if use_frida then frida_iterations (config ctx) else no_frida_iterations (config ctx))"

text \<open>
  \<open>handle.kill_tree()\<close> on a local variable: an \<open>AttributeError\<close> when the variable
  is \<open>None\<close>; otherwise the call is made, and \<open>kill_tree\<close> itself does not raise.
\<close>

definition kill_tree_of :: "tool option \<Rightarrow> phase_state stmt" where
  "kill_tree_of handle =
     (case handle of
        None \<Rightarrow> raise (AttributeError ''NoneType object has no attribute kill_tree'')
      | Some t \<Rightarrow> call (\<lambda>a. None) (KillTree t))"

text \<open>\<open>if handle: handle.kill_tree()\<close>.\<close>

definition kill_tree_if_set :: "tool option \<Rightarrow> phase_state stmt" where
  "kill_tree_if_set handle = (case handle of None \<Rightarrow> skip | Some t \<Rightarrow> kill_tree_of (Some t))"

text \<open>\<open>ctx.record_iteration_result(phase_name, i, success)\<close>.\<close>

definition record_result :: "bool \<Rightarrow> int \<Rightarrow> phase_state stmt" where
  "record_result use_frida i =
     assign (\<lambda>s. s\<lparr>results :=
       record_iteration_result (results s) (phase_name use_frida) i (success s)\<rparr>)"

definition trigger_taps :: "world \<Rightarrow> int \<Rightarrow> phase_state stmt" where
  "trigger_taps w i =
     seq [call (outcome w i) TriggerTaps, assign (\<lambda>s. s\<lparr>success := taps_result w i\<rparr>)]"

definition start_server_tcpdump :: "world \<Rightarrow> int \<Rightarrow> phase_state stmt" where
  "start_server_tcpdump w i =
     seq [call (outcome w i) ServerStartTcpdump,
          assign (\<lambda>s. s\<lparr>server_process := Some ServerTcpdump\<rparr>)]"

definition start_mitmdump :: "world \<Rightarrow> int \<Rightarrow> phase_state stmt" where
  "start_mitmdump w i =
     seq [call (outcome w i) StartMitmdump, assign (\<lambda>s. s\<lparr>mitm_process := Some Mitmdump\<rparr>)]"

definition path_type_error :: exn where
  "path_type_error = TypeError ''unsupported operand type(s) for /: PosixPath and NoneType''"

subsection \<open>Android, same network\<close>

definition android_lan_body :: "world \<Rightarrow> ExperimentContext \<Rightarrow> bool \<Rightarrow> int \<Rightarrow> phase_state stmt" where
  "android_lan_body w ctx use_frida i =
     seq [when_true use_frida (call (outcome w i) (ApplyRules Up)),
          start_server_tcpdump w i,
          assign (\<lambda>s. s\<lparr>phone_pcap_name := Some (pcap_name ctx use_frida i ''phone'')\<rparr>),
          call (outcome w i) (StartPcapdroid (pcap_name ctx use_frida i ''phone'')),
          (if use_frida
           then seq [start_mitmdump w i,
                     call (outcome w i) StartFrida,
                     assign (\<lambda>s. s\<lparr>frida_process := Some Frida\<rparr>)]
           else call (outcome w i) StartApp),
          call (outcome w i) (TimedSleep ''start_app''),
          trigger_taps w i,
          call (outcome w i) (TimedSleep ''between_iterations'')]"

text \<open>The statements of the \<open>finally\<close> block, in the order of the source.\<close>

definition android_lan_finally_steps :: "world \<Rightarrow> bool \<Rightarrow> int \<Rightarrow> phase_state stmt list" where
  "android_lan_finally_steps w use_frida i =
     [call (outcome w i) StopPcapdroid,
      (\<lambda>s. kill_tree_of (server_process s) s),
      (\<lambda>s. kill_tree_if_set (mitm_process s) s),
      (\<lambda>s. kill_tree_if_set (frida_process s) s),
      (\<lambda>s. case phone_pcap_name s of
              None \<Rightarrow> raise path_type_error s
            | Some n \<Rightarrow> seq [call (outcome w i) (PullFileToServer n),
                              call (outcome w i) (DeleteFileFromPhone n)] s),
      when_true use_frida (call (outcome w i) (ApplyRules Down)),
      call (outcome w i) StopApp,
      call (outcome w i) (TimedSleep ''stop_app''),
      record_result use_frida i]"

definition android_lan_finally :: "world \<Rightarrow> bool \<Rightarrow> int \<Rightarrow> phase_state stmt" where
  "android_lan_finally w use_frida i = seq (android_lan_finally_steps w use_frida i)"

definition android_lan_iteration :: "world \<Rightarrow> ExperimentContext \<Rightarrow> bool \<Rightarrow> int \<Rightarrow> phase_state stmt" where
  "android_lan_iteration w ctx use_frida i =
     seq [assign (\<lambda>s. s\<lparr>server_process := None, mitm_process := None, frida_process := None,
                          success := True\<rparr>),
          try_finally
            (try_except (android_lan_body w ctx use_frida i)
               (\<lambda>ex. assign (\<lambda>s. s\<lparr>success := False\<rparr>)))
            (android_lan_finally w use_frida i)]"

definition android_lan_iteration_phase :: "world \<Rightarrow> ExperimentContext \<Rightarrow> bool \<Rightarrow> phase_state stmt" where
  "android_lan_iteration_phase w ctx use_frida =
     seq [assign (\<lambda>s. s\<lparr>phone_pcap_name := None\<rparr>),
          call (outcome w 0) MkdirTargetDir,
          for_each [1 .. num_iterations ctx use_frida] (android_lan_iteration w ctx use_frida)]"

text \<open>
  \<open>clean_up\<close> of the same runner. \<open>WriteSummary\<close> is \<open>ctx.summarise_iterations()\<close>,
  whose write may fail.
\<close>

definition write_summary :: "(action \<Rightarrow> exn option) \<Rightarrow> phase_state stmt" where
  "write_summary oc s =
     (case summarise_iterations (results s) (oc WriteSummary = None) of
        Inl e \<Rightarrow> (Some e, s\<lparr>trace := trace s @ [WriteSummary]\<rparr>)
      | Inr summary \<Rightarrow> (None, s\<lparr>trace := trace s @ [WriteSummary]\<rparr>))"

definition clean_up_steps :: "(action \<Rightarrow> exn option) \<Rightarrow> phase_state stmt list" where
  "clean_up_steps oc = [call oc PullBluetoothLog, call oc UninstallApp, call oc Reboot, write_summary oc]"

definition clean_up :: "(action \<Rightarrow> exn option) \<Rightarrow> phase_state stmt" where
  "clean_up oc = try_except (seq (clean_up_steps oc)) (\<lambda>ex. raise (ExperimentError ex))"

subsection \<open>iOS, same network\<close>

definition ios_lan_body :: "world \<Rightarrow> ExperimentContext \<Rightarrow> bool \<Rightarrow> int \<Rightarrow> phase_state stmt" where
  "ios_lan_body w ctx use_frida i =
     seq [when_true use_frida (call (outcome w i) (ApplyRules Up)),
          start_server_tcpdump w i,
          assign (\<lambda>s. s\<lparr>phone_pcap_name := Some (pcap_name ctx use_frida i ''phone'')\<rparr>),
          call (outcome w i) (PhoneStartTcpdump (pcap_name ctx use_frida i ''phone'')),
          assign (\<lambda>s. s\<lparr>phone_tcpdump_pid :=
            Some (started_pid w i (PhoneStartTcpdump (pcap_name ctx use_frida i ''phone'')))\<rparr>),
          when_true use_frida (start_mitmdump w i),
          call (outcome w i) StartApp,
          call (outcome w i) (TimedSleep ''start_app''),
          when_true use_frida
            (seq [call (outcome w i) StartObjection,
                  assign (\<lambda>s. s\<lparr>frida_process := Some Objection\<rparr>)]),
          trigger_taps w i,
          call (outcome w i) (TimedSleep ''between_iterations'')]"

definition ios_lan_finally_steps :: "world \<Rightarrow> bool \<Rightarrow> int \<Rightarrow> phase_state stmt list" where
  "ios_lan_finally_steps w use_frida i =
     [(\<lambda>s. case phone_tcpdump_pid s of
              None \<Rightarrow> raise (TypeError ''unsupported operand type(s) for +: NoneType and int'') s
            | Some pid \<Rightarrow> call (outcome w i) (PhoneStopTcpdump (Some (pid + 1))) s),
      (\<lambda>s. kill_tree_of (server_process s) s),
      (\<lambda>s. kill_tree_if_set (mitm_process s) s),
      (\<lambda>s. kill_tree_if_set (frida_process s) s),
      (\<lambda>s. case phone_pcap_name s of
              None \<Rightarrow> raise path_type_error s
            | Some n \<Rightarrow> call (outcome w i) (DownloadRemoteFile PhoneSsh n) s),
      call (outcome w i) ResetTerminal,
      when_true use_frida (call (outcome w i) (ApplyRules Down)),
      call (outcome w i) StopApp,
      call (outcome w i) (TimedSleep ''stop_app''),
      record_result use_frida i]"

definition ios_lan_finally :: "world \<Rightarrow> bool \<Rightarrow> int \<Rightarrow> phase_state stmt" where
  "ios_lan_finally w use_frida i = seq (ios_lan_finally_steps w use_frida i)"

definition ios_lan_iteration :: "world \<Rightarrow> ExperimentContext \<Rightarrow> bool \<Rightarrow> int \<Rightarrow> phase_state stmt" where
  "ios_lan_iteration w ctx use_frida i =
     seq [assign (\<lambda>s. s\<lparr>server_process := None, mitm_process := None, frida_process := None,
                          success := True\<rparr>),
          try_finally
            (try_except (ios_lan_body w ctx use_frida i)
               (\<lambda>ex. assign (\<lambda>s. s\<lparr>success := False\<rparr>)))
            (ios_lan_finally w use_frida i)]"

definition ios_lan_iteration_phase :: "world \<Rightarrow> ExperimentContext \<Rightarrow> bool \<Rightarrow> phase_state stmt" where
  "ios_lan_iteration_phase w ctx use_frida =
     seq [assign (\<lambda>s. s\<lparr>phone_pcap_name := None, phone_tcpdump_pid := None\<rparr>),
          call (outcome w 0) MkdirTargetDir,
          for_each [1 .. num_iterations ctx use_frida] (ios_lan_iteration w ctx use_frida)]"



subsection \<open>iOS, cross network\<close>

definition ios_wan_body :: "world \<Rightarrow> ExperimentContext \<Rightarrow> bool \<Rightarrow> int \<Rightarrow> phase_state stmt" where
  "ios_wan_body w ctx use_frida i =
     seq [when_true use_frida (call (outcome w i) (ApplyRules Up)),
          start_server_tcpdump w i,
          assign (\<lambda>s. s\<lparr>phone_pcap_name := Some (pcap_name ctx use_frida i ''phone'')\<rparr>),
          call (outcome w i) (SshStartRemoteTcpdump PhoneSsh (pcap_name ctx use_frida i ''phone'')),
          assign (\<lambda>s. s\<lparr>phone_tcpdump_pid :=
            Some (started_pid w i
                    (SshStartRemoteTcpdump PhoneSsh (pcap_name ctx use_frida i ''phone'')))\<rparr>),
          assign (\<lambda>s. s\<lparr>remote_pcap_name := Some (pcap_name ctx use_frida i ''remote''),
                          remote_tcpdump_filename :=
                            Some (''/tmp/'' @ pcap_name ctx use_frida i ''remote'')\<rparr>),
          call (outcome w i)
            (SshStartRemoteTcpdump RemoteServerSsh (''/tmp/'' @ pcap_name ctx use_frida i ''remote'')),
          assign (\<lambda>s. s\<lparr>remote_pid :=
            Some (started_pid w i
                    (SshStartRemoteTcpdump RemoteServerSsh
                       (''/tmp/'' @ pcap_name ctx use_frida i ''remote'')))\<rparr>),
          when_true use_frida (start_mitmdump w i),
          call (outcome w i) StartApp,
          call (outcome w i) (TimedSleep ''start_app''),
          when_true use_frida
            (seq [call (outcome w i) StartObjection,
                  assign (\<lambda>s. s\<lparr>frida_process := Some Objection\<rparr>)]),
          trigger_taps w i,
          call (outcome w i) (TimedSleep ''between_iterations'')]"

text \<open>
  In the second download the local path \<open>target_dir / remote_pcap_name\<close> is computed
  first, which raises on \<open>None\<close>; the remote file is \<open>remote_tcpdump_filename\<close>, set
  together with it.
\<close>

definition ios_wan_finally_steps :: "world \<Rightarrow> bool \<Rightarrow> int \<Rightarrow> phase_state stmt list" where
  "ios_wan_finally_steps w use_frida i =
     [(\<lambda>s. call (outcome w i) (SshStopRemoteTcpdump RemoteServerSsh (remote_pid s)) s),
      (\<lambda>s. call (outcome w i) (PhoneStopTcpdump (phone_tcpdump_pid s)) s),
      (\<lambda>s. kill_tree_of (server_process s) s),
      (\<lambda>s. kill_tree_if_set (mitm_process s) s),
      (\<lambda>s. kill_tree_if_set (frida_process s) s),
      (\<lambda>s. case phone_pcap_name s of
              None \<Rightarrow> raise path_type_error s
            | Some n \<Rightarrow> call (outcome w i) (DownloadRemoteFile PhoneSsh n) s),
      (\<lambda>s. case (remote_pcap_name s, remote_tcpdump_filename s) of
              (Some n, Some f) \<Rightarrow> call (outcome w i) (DownloadRemoteFile RemoteServerSsh f) s
            | _ \<Rightarrow> raise path_type_error s),
      when_true use_frida
        (seq [call (outcome w i) ResetTerminal, call (outcome w i) (ApplyRules Down)]),
      call (outcome w i) StopApp,
      call (outcome w i) (TimedSleep ''stop_app''),
      record_result use_frida i]"

definition ios_wan_finally :: "world \<Rightarrow> bool \<Rightarrow> int \<Rightarrow> phase_state stmt" where
  "ios_wan_finally w use_frida i = seq (ios_wan_finally_steps w use_frida i)"

definition ios_wan_iteration :: "world \<Rightarrow> ExperimentContext \<Rightarrow> bool \<Rightarrow> int \<Rightarrow> phase_state stmt" where
  "ios_wan_iteration w ctx use_frida i =
     seq [assign (\<lambda>s. s\<lparr>server_process := None, mitm_process := None, frida_process := None,
                          remote_pid := None, remote_tcpdump_filename := None,
                          remote_pcap_name := None, success := True\<rparr>),
          try_finally
            (try_except (ios_wan_body w ctx use_frida i)
               (\<lambda>ex. assign (\<lambda>s. s\<lparr>success := False\<rparr>)))
            (ios_wan_finally w use_frida i)]"

definition ios_wan_iteration_phase :: "world \<Rightarrow> ExperimentContext \<Rightarrow> bool \<Rightarrow> phase_state stmt" where
  "ios_wan_iteration_phase w ctx use_frida =
     seq [assign (\<lambda>s. s\<lparr>phone_pcap_name := None, phone_tcpdump_pid := None\<rparr>),
          call (outcome w 0) MkdirTargetDir,
          call (outcome w 0) SshCreateFolder,
          for_each [1 .. num_iterations ctx use_frida] (ios_wan_iteration w ctx use_frida)]"

subsection \<open>Concrete runs\<close>

definition initial_state :: phase_state where
  "initial_state =
     \<lparr>trace = [], results = [], phone_pcap_name = None, phone_tcpdump_pid = None,
      server_process = None, mitm_process = None, frida_process = None, remote_pid = None,
      remote_tcpdump_filename = None, remote_pcap_name = None, success = True\<rparr>"

definition lamp_context :: "Platform \<Rightarrow> NetworkProfile \<Rightarrow> int \<Rightarrow> int \<Rightarrow> ExperimentContext" where
  "lamp_context p n no_frida_n frida_n =
     \<lparr>package_name = ''com.example.app'', phone_id = ''PHONE1'', device_name = ''lamp'',
      config = \<lparr>platform = p, network_profile = n, frida_iterations = frida_n,
                no_frida_iterations = no_frida_n\<rparr>,
      iteration_results = []\<rparr>"

text \<open>
  The registry after the imports of \<open>cli.py\<close>, in registration order, each runner with
  its class name and priority 0. The state machines are replaced by a stand-in that logs
  which runner ran, for runs of \<open>dispatch\<close> on concrete input.
\<close>

definition logging_run :: "string \<Rightarrow> ExperimentContext \<Rightarrow> string list \<Rightarrow> exn option \<times> string list" where
  "logging_run label ctx w = (None, w @ [label])"

definition repository_registry :: "string list Entry list" where
  "repository_registry =
     [\<lparr>can_handle = AndroidLanRunner_can_handle, run = logging_run ''AndroidLanRunner'',
       name = ''AndroidLanRunner'', priority = 0\<rparr>,
      \<lparr>can_handle = AndroidWanRunner_can_handle, run = logging_run ''AndroidWanRunner'',
       name = ''AndroidWanRunner'', priority = 0\<rparr>,
      \<lparr>can_handle = iOSWanRunner_can_handle, run = logging_run ''iOSWanRunner'',
       name = ''iOSWanRunner'', priority = 0\<rparr>,
      \<lparr>can_handle = iOSLanRunner_can_handle, run = logging_run ''iOSLanRunner'',
       name = ''iOSLanRunner'', priority = 0\<rparr>]"

definition second_android_lan :: "string list Entry" where
  "second_android_lan =
     \<lparr>can_handle = AndroidLanRunner_can_handle, run = logging_run ''Other'',
      name = ''Other'', priority = 0\<rparr>"

text \<open>A world in which every call succeeds; the phone capture gets pid 500, the relay capture 700.\<close>

definition calm_world :: world where
  "calm_world =
     \<lparr>outcome = (\<lambda>i a. None),
      started_pid = (\<lambda>i a. case a of SshStartRemoteTcpdump RemoteServerSsh f \<Rightarrow> 700 | _ \<Rightarrow> 500),
      taps_result = (\<lambda>i. True)\<rparr>"

text \<open>The same world, except that applying the redirection rules fails.\<close>

definition rules_fail_world :: world where
  "rules_fail_world =
     calm_world\<lparr>outcome := (\<lambda>i a. if a = ApplyRules Up
                                    then Some (IptablesError ''Failed to apply iptables rules'')
                                    else None)\<rparr>"

text \<open>The same world, except that the server capture cannot be started.\<close>

definition tcpdump_missing_world :: world where
  "tcpdump_missing_world =
     calm_world\<lparr>outcome := (\<lambda>i a. if a = ServerStartTcpdump
                                    then Some (OSError ''No such file or directory: tcpdump'')
                                    else None)\<rparr>"

text \<open>The same world, except that stopping the device capture fails.\<close>

definition stop_capture_fails_world :: world where
  "stop_capture_fails_world =
     calm_world\<lparr>outcome := (\<lambda>i a. if a = StopPcapdroid
                                    then Some (CalledProcessError 1 [''adb''] None None)
                                    else None)\<rparr>"

text \<open>The calls that stop a capture started over SSH.\<close>

fun is_stop_call :: "action \<Rightarrow> bool" where
  "is_stop_call (PhoneStopTcpdump pid) = True"
| "is_stop_call (SshStopRemoteTcpdump h pid) = True"
| "is_stop_call _ = False"

text \<open>
  The local variables as an instrumented iteration leaves them when its body has run
  through, for the Android same-network runner and for the iOS cross-network runner.
\<close>

definition android_instrumented_state :: phase_state where
  "android_instrumented_state =
     initial_state\<lparr>phone_pcap_name := Some ''iteration-1-frida-phone-lamp.pcap'',
                    server_process := Some ServerTcpdump, mitm_process := Some Mitmdump,
                    frida_process := Some Frida\<rparr>"

definition ios_wan_instrumented_state :: phase_state where
  "ios_wan_instrumented_state =
     initial_state\<lparr>phone_pcap_name := Some ''iteration-1-frida-phone-lamp.pcap'',
                    phone_tcpdump_pid := Some 500,
                    server_process := Some ServerTcpdump, mitm_process := Some Mitmdump,
                    frida_process := Some Objection, remote_pid := Some 700,
                    remote_tcpdump_filename := Some ''/tmp/iteration-1-frida-remote-lamp.pcap'',
                    remote_pcap_name := Some ''iteration-1-frida-remote-lamp.pcap''\<rparr>"

text \<open>
  The state in which the \<open>finally\<close> block of iteration \<open>i\<close> is entered: the handles are
  reset, the body has run, and the \<open>except\<close> clause has run if the body raised.
\<close>

definition android_lan_at_finally ::
    "world \<Rightarrow> ExperimentContext \<Rightarrow> bool \<Rightarrow> int \<Rightarrow> phase_state \<Rightarrow> phase_state" where
  "android_lan_at_finally w ctx use_frida i s =
     snd (try_except (android_lan_body w ctx use_frida i)
            (\<lambda>ex. assign (\<lambda>s. s\<lparr>success := False\<rparr>))
            (s\<lparr>server_process := None, mitm_process := None, frida_process := None,
               success := True\<rparr>))"

definition ios_wan_at_finally ::
    "world \<Rightarrow> ExperimentContext \<Rightarrow> bool \<Rightarrow> int \<Rightarrow> phase_state \<Rightarrow> phase_state" where
  "ios_wan_at_finally w ctx use_frida i s =
     snd (try_except (ios_wan_body w ctx use_frida i)
            (\<lambda>ex. assign (\<lambda>s. s\<lparr>success := False\<rparr>))
            (s\<lparr>server_process := None, mitm_process := None, frida_process := None,
               remote_pid := None, remote_tcpdump_filename := None,
               remote_pcap_name := None, success := True\<rparr>))"

text \<open>The same world, except that pulling the capture file from the phone fails.\<close>

definition pull_fails_world :: world where
  "pull_fails_world =
     calm_world\<lparr>outcome := (\<lambda>i a. case a of
                                      PullFileToServer n \<Rightarrow>
                                        Some (CalledProcessError 1 [''adb''] None None)
                                    | _ \<Rightarrow> None)\<rparr>"

text \<open>A world in which the relay cannot be reached when its capture is to be stopped.\<close>

definition relay_unreachable_world :: world where
  "relay_unreachable_world =
     calm_world\<lparr>outcome := (\<lambda>i a. case a of
                                      SshStopRemoteTcpdump h pid \<Rightarrow>
                                        Some (SshError ''Failed to connect'')
                                    | _ \<Rightarrow> None)\<rparr>"

text \<open>Run-level clean-up in which uninstalling the app fails.\<close>

definition uninstall_fails :: "action \<Rightarrow> exn option" where
  "uninstall_fails a =
     (if a = UninstallApp then Some (CalledProcessError 1 [''adb''] None None) else None)"

text \<open>
  Proof tools for the order of calls. A statement \<open>emits\<close> a chunk of calls when it
  changes nothing but the trace and the ledger, appends a prefix of the chunk to the
  trace, and appends all of it when it completes.
\<close>

definition emits :: "phase_state stmt \<Rightarrow> (phase_state \<Rightarrow> action list) \<Rightarrow> bool" where
  "emits c chunk =
     (\<forall>s r s'. c s = (r, s') \<longrightarrow>
        s' = s\<lparr>trace := trace s', results := results s'\<rparr>
        \<and> (\<exists>done. trace s' = trace s @ done
              \<and> prefix done (chunk s) \<and> (r = None \<longrightarrow> done = chunk s)))"

definition local_only :: "(phase_state \<Rightarrow> action list) \<Rightarrow> bool" where
  "local_only chunk = (\<forall>s t res. chunk (s\<lparr>trace := t, results := res\<rparr>) = chunk s)"

text \<open>
  The calls of the three clean-up sequences, in the order of the source, for a state in
  which the handles and file names the sequence reads are set. \<open>kill_tree\<close> does not
  raise, whatever the world; every other call raises what the world says, and a failed
  write of the summary surfaces as the \<open>RuntimeError\<close> of \<open>summarise_iterations\<close>.
\<close>

definition cleanup_outcome :: "world \<Rightarrow> int \<Rightarrow> action \<Rightarrow> exn option" where
  "cleanup_outcome w i a = (case a of KillTree t \<Rightarrow> None | _ \<Rightarrow> outcome w i a)"

definition clean_up_outcome :: "(action \<Rightarrow> exn option) \<Rightarrow> action \<Rightarrow> exn option" where
  "clean_up_outcome oc a =
     (if a = WriteSummary
      then (if oc WriteSummary = None then None
            else Some (RuntimeError ''Failed to write iteration summary''))
      else oc a)"

definition handle_calls :: "tool option \<Rightarrow> action list" where
  "handle_calls handle = (case handle of None \<Rightarrow> [] | Some t \<Rightarrow> [KillTree t])"

definition android_lan_cleanup_calls :: "bool \<Rightarrow> phase_state \<Rightarrow> action list" where
  "android_lan_cleanup_calls use_frida s =
     [StopPcapdroid]
     @ handle_calls (server_process s)
     @ handle_calls (mitm_process s)
     @ handle_calls (frida_process s)
     @ (case phone_pcap_name s of
          None \<Rightarrow> [] | Some n \<Rightarrow> [PullFileToServer n, DeleteFileFromPhone n])
     @ (if use_frida then [ApplyRules Down] else [])
     @ [StopApp, TimedSleep ''stop_app'']"

definition ios_wan_cleanup_calls :: "bool \<Rightarrow> phase_state \<Rightarrow> action list" where
  "ios_wan_cleanup_calls use_frida s =
     [SshStopRemoteTcpdump RemoteServerSsh (remote_pid s), PhoneStopTcpdump (phone_tcpdump_pid s)]
     @ handle_calls (server_process s)
     @ handle_calls (mitm_process s)
     @ handle_calls (frida_process s)
     @ (case phone_pcap_name s of None \<Rightarrow> [] | Some n \<Rightarrow> [DownloadRemoteFile PhoneSsh n])
     @ (case remote_tcpdump_filename s of
          None \<Rightarrow> [] | Some f \<Rightarrow> [DownloadRemoteFile RemoteServerSsh f])
     @ (if use_frida then [ResetTerminal, ApplyRules Down] else [])
     @ [StopApp, TimedSleep ''stop_app'']"

definition clean_up_calls :: "action list" where
  "clean_up_calls = [PullBluetoothLog, UninstallApp, Reboot, WriteSummary]"

text \<open>
  Calls made one after the other with no guard: the first that raises ends the run with
  its exception.
\<close>

fun run_calls :: "(action \<Rightarrow> exn option) \<Rightarrow> action list \<Rightarrow> exn option \<times> action list" where
  "run_calls oc [] = (None, [])"
| "run_calls oc (a # rest) =
     (case oc a of
        Some e \<Rightarrow> (Some e, [a])
      | None \<Rightarrow> (case run_calls oc rest of (r, made) \<Rightarrow> (r, a # made)))"

text \<open>
  A proof tool: on the states that are \<open>ready\<close>, a statement \<open>performs\<close> a chunk of
  calls when it does what \<open>run_calls\<close> does on the chunk and changes the trace only.
\<close>

definition performs ::
  "(action \<Rightarrow> exn option) \<Rightarrow> (phase_state \<Rightarrow> bool) \<Rightarrow> phase_state stmt
     \<Rightarrow> (phase_state \<Rightarrow> action list) \<Rightarrow> bool"
where
  "performs oc ready c chunk =
     (\<forall>s. ready s \<longrightarrow>
        c s = (fst (run_calls oc (chunk s)), s\<lparr>trace := trace s @ snd (run_calls oc (chunk s))\<rparr>))"

section \<open>Properties of the ledger summary\<close>

lemma scenario_ledger_value:
  "scenario_ledger = [(''no_frida'', [(1, True), (2, False)]), (''frida'', [(1, True)])]"
  by (simp add: scenario_ledger_def)

lemma str_int_1: "str_int 1 = ''1''"
  by (simp add: str_int_def str_nat.simps digit_char_def)

lemma str_int_2: "str_int 2 = ''2''"
  by (simp add: str_int_def str_nat.simps digit_char_def)

lemma scenario_summary_text:
  "summary_text [(''no_frida'', [(1, True), (2, False)]), (''frida'', [(1, True)])] =
     ''Experiment summary:'' @ [CHR 0x0A] @
     ''no_frida  :  1 /  2 failed: (2)'' @ [CHR 0x0A] @
     ''frida     :  1 /  1''"
  by (simp add: summary_text_def summary_line_def fmt_s_def fmt_d_def str_int_1 str_int_2
      Let_def eval_nat_numeral)

text \<open>
  Claim C8. For the ledger with \<open>no_frida = [(1, True), (2, False)]\<close> and
  \<open>frida = [(1, True)]\<close>, \<open>summarise_iterations\<close> returns a text with one line per
  phase, in insertion order, giving the successful and the total count and the list of
  failed indices, which is absent from the line of a phase without failures. Read as
  the repository's test reads a summary, with white space removed, the two lines are
  \<open>no_frida:1/2failed:(2)\<close> and \<open>frida:1/1\<close>, and the text contains the two
  substrings of the claim. As written, the lines are \<open>no_frida  :  1 /  2 failed: (2)\<close>
  and \<open>frida     :  1 /  1\<close>: the format pads the phase name to ten columns and each
  count to two.
\<close>

theorem summarise_iterations_scenario:
  "summarise_iterations scenario_ledger True = Inr (summary_text scenario_ledger)
   \<and> sublist (canon ''no_frida: 1 / 2 failed: (2)'') (canon (summary_text scenario_ledger))
   \<and> sublist (canon ''frida: 1 / 1'') (canon (summary_text scenario_ledger))
   \<and> map (\<lambda>pr. canon (summary_line pr)) scenario_ledger =
       [''no_frida:1/2failed:(2)'', ''frida:1/1'']
   \<and> map summary_line scenario_ledger =
       [''no_frida  :  1 /  2 failed: (2)'', ''frida     :  1 /  1'']
   \<and> sublist ''no_frida  :  1 /  2 failed: (2)'' (summary_text scenario_ledger)
   \<and> sublist ''frida     :  1 /  1'' (summary_text scenario_ledger)
   \<and> \<not> sublist ''failed'' (summary_line (''frida'', [(1, True)]))"
proof -
  have whole: "summary_text scenario_ledger =
      ''Experiment summary:'' @ [CHR 0x0A] @
      ''no_frida  :  1 /  2 failed: (2)'' @ [CHR 0x0A] @
      ''frida     :  1 /  1''"
    by (simp only: scenario_ledger_value scenario_summary_text)
  have lines: "map summary_line scenario_ledger =
      [''no_frida  :  1 /  2 failed: (2)'', ''frida     :  1 /  1'']"
    by (simp add: scenario_ledger_value summary_line_def fmt_s_def fmt_d_def str_int_1
        str_int_2 Let_def eval_nat_numeral)
  have a: "sublist (canon ''no_frida: 1 / 2 failed: (2)'') (canon (summary_text scenario_ledger))"
    unfolding whole by code_simp
  have b: "sublist (canon ''frida: 1 / 1'') (canon (summary_text scenario_ledger))"
    unfolding whole by code_simp
  have c: "map (\<lambda>pr. canon (summary_line pr)) scenario_ledger =
      [''no_frida:1/2failed:(2)'', ''frida:1/1'']"
  proof -
    have "map (\<lambda>pr. canon (summary_line pr)) scenario_ledger =
        map canon (map summary_line scenario_ledger)"
      by simp
    also have "\<dots> = [''no_frida:1/2failed:(2)'', ''frida:1/1'']"
      unfolding lines by code_simp
    finally show ?thesis .
  qed
  have d: "sublist ''no_frida  :  1 /  2 failed: (2)'' (summary_text scenario_ledger)"
    unfolding whole by code_simp
  have e: "sublist ''frida     :  1 /  1'' (summary_text scenario_ledger)"
    unfolding whole by code_simp
  have line: "summary_line (''frida'', [(1, True)]) = ''frida     :  1 /  1''"
    by (simp add: summary_line_def fmt_s_def fmt_d_def str_int_1 Let_def eval_nat_numeral)
  have f: "\<not> sublist ''failed'' (summary_line (''frida'', [(1, True)]))"
    unfolding line by code_simp
  show ?thesis
    using a b c lines d e f by (simp add: summarise_iterations_def)
qed

section \<open>Properties of dispatch\<close>

lemma hd_sort_key_priority:
  fixes xs :: "'w Entry list"
  assumes "xs \<noteq> []"
  shows "priority (hd (sort_key (\<lambda>e. - priority e) xs)) = Max (priority ` set xs)"
proof -
  let ?f = "\<lambda>e::'w Entry. - priority e"
  let ?ys = "sort_key ?f xs"
  have ne: "?ys \<noteq> []" using assms by (metis length_0_conv length_sort)
  then obtain y ys where ys: "?ys = y # ys" by (cases ?ys) auto
  have srt: "sorted (map ?f ?ys)" by (rule sorted_sort_key)
  have st: "set ?ys = set xs" by simp
  have yin: "y \<in> set xs" using ys st by (metis list.set_intros(1))
  have le: "priority z \<le> priority y" if "z \<in> set xs" for z
  proof -
    from that st ys have "z = y \<or> z \<in> set ys" by (metis set_ConsD)
    moreover have "\<forall>z \<in> set ys. ?f y \<le> ?f z" using srt ys by simp
    ultimately show ?thesis by auto
  qed
  have "Max (priority ` set xs) = priority y"
    by (rule Max_eqI) (use yin le in auto)
  then show ?thesis using ys by simp
qed

lemma filter_priority_sort_key:
  fixes xs :: "'w Entry list"
  shows "filter (\<lambda>e. priority e = p) (sort_key (\<lambda>e. - priority e) xs) =
         filter (\<lambda>e. priority e = p) xs"
  using sort_key_stable [of "\<lambda>e::'w Entry. - priority e" "- p" xs] by simp

lemma top_nonempty:
  fixes xs :: "'w Entry list"
  assumes "xs \<noteq> []"
  shows "filter (\<lambda>e. priority e = Max (priority ` set xs)) xs \<noteq> []"
proof -
  have "Max (priority ` set xs) \<in> priority ` set xs"
    by (rule Max_in) (use assms in auto)
  then obtain e where "e \<in> set xs" "priority e = Max (priority ` set xs)" by auto
  then show ?thesis by (auto simp: filter_empty_conv)
qed

text \<open>
  Claim C3. Let \<open>matches\<close> be the registered entries whose capability check accepts the
  configuration, in registration order, and \<open>top\<close> those of them at the maximum
  priority. With no match \<open>dispatch\<close> raises \<open>RunnerNotFoundError\<close>; with matches
  there is at least one top entry; with exactly one, \<open>dispatch\<close> is the run of that
  entry, whatever it returns or raises; with two or more it raises
  \<open>RunnerAmbiguousError\<close>, whose message lists every tied entry with its priority.
\<close>

theorem dispatch_selection:
  fixes registry :: "'w Entry list"
  shows
  "let matches = filter (\<lambda>e. can_handle e (config ctx)) registry;
       top = filter (\<lambda>e. priority e = Max (priority ` set matches)) matches
   in (matches = [] \<longrightarrow>
         dispatch registry ctx w =
           (Some (RunnerNotFoundError ''No runner matches this configuration.''), w))
    \<and> (matches \<noteq> [] \<longrightarrow> top \<noteq> [])
    \<and> (\<forall>e. top = [e] \<longrightarrow> dispatch registry ctx w = run e ctx w)
    \<and> (2 \<le> length top \<longrightarrow>
         dispatch registry ctx w =
           (Some (RunnerAmbiguousError
                    (''Ambiguous config; multiple runners tie: '' @ tied_text top)), w))"
proof -
  define matches where "matches = filter (\<lambda>e. can_handle e (config ctx)) registry"
  define top where "top = filter (\<lambda>e. priority e = Max (priority ` set matches)) matches"
  have sorted_top:
    "filter (\<lambda>e. priority e = priority (hd (sort_key (\<lambda>e. - priority e) matches)))
       (sort_key (\<lambda>e. - priority e) matches) = top" if "matches \<noteq> []"
    using that by (simp add: hd_sort_key_priority filter_priority_sort_key top_def)
  have a: "matches = [] \<longrightarrow> dispatch registry ctx w =
           (Some (RunnerNotFoundError ''No runner matches this configuration.''), w)"
    by (simp add: dispatch_def matches_def)
  have b: "matches \<noteq> [] \<longrightarrow> top \<noteq> []"
    unfolding top_def by (simp add: top_nonempty)
  have ne: "matches \<noteq> []" if "top \<noteq> []"
    using that by (auto simp: top_def)
  have c: "\<forall>e. top = [e] \<longrightarrow> dispatch registry ctx w = run e ctx w"
  proof (intro allI impI)
    fix e assume t: "top = [e]"
    then have m: "matches \<noteq> []" using ne by simp
    show "dispatch registry ctx w = run e ctx w"
      using m sorted_top [OF m] t
      by (simp add: dispatch_def Let_def matches_def [symmetric])
  qed
  have d: "2 \<le> length top \<longrightarrow> dispatch registry ctx w =
           (Some (RunnerAmbiguousError
                    (''Ambiguous config; multiple runners tie: '' @ tied_text top)), w)"
  proof
    assume t: "2 \<le> length top"
    then have "top \<noteq> []" by auto
    then have m: "matches \<noteq> []" using ne by simp
    show "dispatch registry ctx w =
           (Some (RunnerAmbiguousError
                    (''Ambiguous config; multiple runners tie: '' @ tied_text top)), w)"
      using m sorted_top [OF m] t
      by (simp add: dispatch_def Let_def matches_def [symmetric])
  qed
  show ?thesis
    using a b c d by (simp add: Let_def matches_def [symmetric] top_def [symmetric])
qed

lemmas can_handle_defs = AndroidLanRunner_can_handle_def AndroidWanRunner_can_handle_def
  iOSLanRunner_can_handle_def iOSWanRunner_can_handle_def

lemma str_int_0: "str_int 0 = ''0''"
  by (simp add: str_int_def str_nat.simps digit_char_def)

text \<open>
  The three cases on the registry of the repository and an Android, same-network
  configuration: the one matching runner runs; an empty registry matches nothing; a
  second runner for the same configuration at the same priority is a tie.
\<close>

theorem dispatch_selection_witness:
  "dispatch repository_registry (lamp_context Android Lan 2 1) [] = (None, [''AndroidLanRunner''])
   \<and> dispatch [] (lamp_context Android Lan 2 1) ([] :: string list) =
       (Some (RunnerNotFoundError ''No runner matches this configuration.''), [])
   \<and> dispatch (repository_registry @ [second_android_lan]) (lamp_context Android Lan 2 1) [] =
       (Some (RunnerAmbiguousError
          ''Ambiguous config; multiple runners tie: AndroidLanRunner(prio=0), Other(prio=0)''), [])"
  using dispatch_selection [of "lamp_context Android Lan 2 1" repository_registry "[]"]
    dispatch_selection [of "lamp_context Android Lan 2 1" "[]" "[] :: string list"]
    dispatch_selection [of "lamp_context Android Lan 2 1"
                           "repository_registry @ [second_android_lan]" "[]"]
  by (simp add: Let_def repository_registry_def second_android_lan_def lamp_context_def
      can_handle_defs logging_run_def tied_text_def str_int_0)

section \<open>Properties of the process handle and the command runner\<close>

lemma signal_tree_cases:
  "signal_tree sig env calls =
     (None, calls @ (case getpgid_result env of
                       Inl e \<Rightarrow> [Getpgid, Direct sig]
                     | Inr pgid \<Rightarrow>
                         (case killpg_result env of
                            None \<Rightarrow> [Getpgid, Killpg pgid sig]
                          | Some e \<Rightarrow> [Getpgid, Killpg pgid sig, Direct sig])))"
  by (simp add: signal_tree_def try_except_def killpg_getpgid_def os_call_def skip_def
      split: sum.splits option.splits)

text \<open>
  Claim C9. Whatever the three operating-system calls do, \<open>kill_tree\<close> returns without
  an exception, and so does a second call after it. For a process that is gone, so that
  \<open>os.getpgid\<close> raises, the group is never signalled and the fallback on the
  \<open>Popen\<close> object is the only other call.
\<close>

theorem kill_tree_never_raises:
  "fst (kill_tree first_call calls) = None
   \<and> fst (kill_tree second_call (snd (kill_tree first_call calls))) = None
   \<and> (\<forall>e. getpgid_result first_call = Inl e \<longrightarrow>
          kill_tree first_call calls = (None, calls @ [Getpgid, Direct SIGKILL]))"
  by (simp add: kill_tree_def signal_tree_cases)

theorem kill_tree_never_raises_witness:
  "kill_tree \<lparr>getpgid_result = Inl (OSError ''ProcessLookupError''), killpg_result = None,
              direct_result = None\<rparr> [] = (None, [Getpgid, Direct SIGKILL])
   \<and> fst (kill_tree \<lparr>getpgid_result = Inl (OSError ''ProcessLookupError''),
                     killpg_result = None,
                     direct_result = Some (OSError ''ProcessLookupError'')\<rparr>
             [Getpgid, Direct SIGKILL]) = None"
  using kill_tree_never_raises
    [of "\<lparr>getpgid_result = Inl (OSError ''ProcessLookupError''), killpg_result = None,
              direct_result = None\<rparr>" "[]"
        "\<lparr>getpgid_result = Inl (OSError ''ProcessLookupError''),
                     killpg_result = None,
                     direct_result = Some (OSError ''ProcessLookupError'')\<rparr>"]
  by (simp add: kill_tree_def signal_tree_cases)

lemma on_timeout_calls_value:
  "on_timeout_calls env calls =
     (None, snd (terminate (term_env env) calls) @ [Wait 2]
        @ (if wait_grace env = None then [] else snd (kill_tree (kill_env env) []))
        @ [Communicate (Some 1)])"
  by (simp add: on_timeout_calls_def try_except_def os_call_def skip_def
        terminate_def kill_tree_def signal_tree_cases split: option.splits sum.splits)

text \<open>
  What \<open>run_and_wait\<close> does when the first \<open>communicate\<close> times out. It raises
  \<open>TimeoutExpired\<close> with the command, the requested timeout and the captured output:
  that of the final read, or of the first timeout when the final read fails. The calls
  are, in order: the graceful signal (to the group when \<open>getpgid\<close> and \<open>killpg\<close>
  succeed, else to the child), a wait of two seconds, the calls of \<open>kill_tree\<close> when
  that wait raised and none when it returned, and a final read with a timeout of one second.
\<close>

lemma run_and_wait_timeout:
  "communicate_first env = TimedOut e_output e_stderr \<longrightarrow>
     snd (run_and_wait args timeout check env) =
       Inl (TimeoutExpired args timeout
              (fst (captured_output env e_output e_stderr))
              (snd (captured_output env e_output e_stderr)))
   \<and> fst (run_and_wait args timeout check env) =
       [Spawn args, Communicate timeout]
       @ snd (terminate (term_env env) [])
       @ [Wait 2]
       @ (if wait_grace env = None then [] else snd (kill_tree (kill_env env) []))
       @ [Communicate (Some 1)]
   \<and> (\<forall>out err. communicate_final env = Inr (out, err) \<longrightarrow>
         captured_output env e_output e_stderr = (Some out, Some err))
   \<and> (\<forall>e. communicate_final env = Inl e \<longrightarrow>
         captured_output env e_output e_stderr = (e_output, e_stderr))
   \<and> (\<forall>pgid. getpgid_result (term_env env) = Inr pgid \<and> killpg_result (term_env env) = None \<longrightarrow>
         terminate (term_env env) [] = (None, [Getpgid, Killpg pgid SIGTERM]))
   \<and> (\<forall>pgid. getpgid_result (kill_env env) = Inr pgid \<and> killpg_result (kill_env env) = None \<longrightarrow>
         kill_tree (kill_env env) [] = (None, [Getpgid, Killpg pgid SIGKILL]))"
  by (simp add: run_and_wait_def on_timeout_calls_value Let_def captured_output_def
      terminate_def kill_tree_def signal_tree_cases)

text \<open>A process that ignores the graceful signal gets both signals.\<close>

lemma run_and_wait_timeout_ignoring:
  "run_and_wait [''sleep'', ''60''] (Some 1) True env_ignores_sigterm =
     ([Spawn [''sleep'', ''60''], Communicate (Some 1), Getpgid, Killpg 4242 SIGTERM, Wait 2,
       Getpgid, Killpg 4242 SIGKILL, Communicate (Some 1)],
      Inl (TimeoutExpired [''sleep'', ''60''] (Some 1) (Some '''') (Some '''')))"
  using run_and_wait_timeout [of env_ignores_sigterm None None "[''sleep'', ''60'']" "Some 1" True]
  by (simp add: env_ignores_sigterm_def prod_eq_iff)


section \<open>Properties of the timing source\<close>

lemma parse_items_not_number:
  "\<exists>v \<in> snd ` set items. \<not> is_int_or_float v \<Longrightarrow>
   \<exists>m. parse_items items parsed = Inl (ValueError m)
      \<or> parse_items items parsed = Inl (OverflowError m)"
proof (induction items arbitrary: parsed)
  case Nil
  then show ?case by simp
next
  case (Cons kv rest)
  obtain k v where kv: "kv = (k, v)" by (cases kv)
  show ?case
  proof (cases "is_int_or_float v")
    case False
    then show ?thesis by (simp add: kv)
  next
    case True
    with Cons.prems kv have "\<exists>v \<in> snd ` set rest. \<not> is_int_or_float v" by auto
    from Cons.IH [OF this] show ?thesis
      using True by (cases v) (auto simp: kv)
  qed
qed

text \<open>
  Claim C6, as amended. Let the file be present and be loaded by the call (nothing is
  cached, or the cached modification time differs). If its parsed top level is a truthy
  value other than a mapping, or a mapping one of whose values is neither an int, a
  float nor a bool, then every \<open>get\<close> raises: one and the same error for every key and
  default, a \<open>ValueError\<close>, or the \<open>OverflowError\<close> of an earlier integer too large
  for a float. The cache is left as it was, so the calls that follow raise as well.
\<close>

theorem get_malformed_raises:
  "path self \<noteq> None \<and>
   (parsed_values (cache self) = None \<or> last_modified_time (cache self) \<noteq> mtime) \<and>
   ((truthy loaded \<and> (\<forall>items. loaded \<noteq> YMap items)) \<or>
    (\<exists>items. loaded = YMap items \<and> (\<exists>v \<in> snd ` set items. \<not> is_int_or_float v)))
   \<longrightarrow>
   (\<exists>e. ((\<exists>m. e = ValueError m) \<or> (\<exists>m. e = OverflowError m)) \<and>
        (\<forall>key default_value.
           get (Present mtime (Inr loaded)) self key default_value = (Inl e, self)))"
proof (intro impI)
  assume h: "path self \<noteq> None \<and>
   (parsed_values (cache self) = None \<or> last_modified_time (cache self) \<noteq> mtime) \<and>
   ((truthy loaded \<and> (\<forall>items. loaded \<noteq> YMap items)) \<or>
    (\<exists>items. loaded = YMap items \<and> (\<exists>v \<in> snd ` set items. \<not> is_int_or_float v)))"
  then have p: "path self \<noteq> None"
    and stale: "\<not> (mtime = last_modified_time (cache self) \<and> parsed_values (cache self) \<noteq> None)"
    by auto
  from h consider
      (other) "truthy loaded" "\<forall>items. loaded \<noteq> YMap items"
    | (bad_value) items where "loaded = YMap items"
        "\<exists>v \<in> snd ` set items. \<not> is_int_or_float v"
    by blast
  then have "\<exists>e. ((\<exists>m. e = ValueError m) \<or> (\<exists>m. e = OverflowError m)) \<and>
      load_if_file_changed (Present mtime (Inr loaded)) self = (Some e, self)"
  proof cases
    case other
    then show ?thesis
      using p stale by (cases loaded) (auto simp: load_if_file_changed_def)
  next
    case bad_value
    then have ne: "items \<noteq> []" by auto
    from parse_items_not_number [OF bad_value(2), of Map.empty]
    obtain m where "parse_items items Map.empty = Inl (ValueError m)
        \<or> parse_items items Map.empty = Inl (OverflowError m)" by blast
    then show ?thesis
      using p stale ne bad_value(1) by (auto simp: load_if_file_changed_def)
  qed
  then obtain e where e: "(\<exists>m. e = ValueError m) \<or> (\<exists>m. e = OverflowError m)"
    and l: "load_if_file_changed (Present mtime (Inr loaded)) self = (Some e, self)" by blast
  have "\<forall>key default_value.
      get (Present mtime (Inr loaded)) self key default_value = (Inl e, self)"
    by (simp add: get_def l)
  with e show "\<exists>e. ((\<exists>m. e = ValueError m) \<or> (\<exists>m. e = OverflowError m)) \<and>
        (\<forall>key default_value.
           get (Present mtime (Inr loaded)) self key default_value = (Inl e, self))" by blast
qed

text \<open>The file \<open>start_app: 'three'\<close>, read by a fresh timing source.\<close>

theorem get_malformed_raises_witness:
  "get (Present 100 (Inr (YMap [(KStr ''start_app'', YStr ''three'')])))
       (SleepTimes_init (Some ''sleep.yaml'')) ''start_app'' 15 =
     (Inl (ValueError ''Sleep time for start_app must be a number of seconds''),
      SleepTimes_init (Some ''sleep.yaml''))"
  using get_malformed_raises [of "SleepTimes_init (Some ''sleep.yaml'')" 100
      "YMap [(KStr ''start_app'', YStr ''three'')]"]
  by (simp add: SleepTimes_init_def get_def load_if_file_changed_def)

text \<open>
  Three files that are not key-to-number mappings and for which \<open>get\<close> returns a
  value: an empty document and an empty sequence, both read as the empty mapping by
  \<open>or {}\<close>; and a sequence whose modification time equals that of the cached load,
  which is not read at all.
\<close>

theorem get_malformed_default_counterexample:
  "get (Present 100 (Inr YNull)) (SleepTimes_init (Some ''sleep.yaml'')) ''start_app'' 15 =
     (Inr 15, \<lparr>path = Some ''sleep.yaml'',
               cache = \<lparr>last_modified_time = 100, parsed_values = Some Map.empty\<rparr>\<rparr>)
   \<and> get (Present 100 (Inr (YSeq []))) (SleepTimes_init (Some ''sleep.yaml'')) ''start_app'' 15 =
     (Inr 15, \<lparr>path = Some ''sleep.yaml'',
               cache = \<lparr>last_modified_time = 100, parsed_values = Some Map.empty\<rparr>\<rparr>)
   \<and> get (Present 100 (Inr (YSeq [YInt 1, YInt 2])))
         \<lparr>path = Some ''sleep.yaml'',
          cache = \<lparr>last_modified_time = 100, parsed_values = Some [''start_app'' \<mapsto> 3]\<rparr>\<rparr>
         ''start_app'' 15 =
     (Inr 3, \<lparr>path = Some ''sleep.yaml'',
              cache = \<lparr>last_modified_time = 100, parsed_values = Some [''start_app'' \<mapsto> 3]\<rparr>\<rparr>)"
  by (simp add: get_def load_if_file_changed_def SleepTimes_init_def)

text \<open>
  Claim C10, as amended. Let the file be present with an empty parsed content (\<open>None\<close>,
  as for an empty file or one of comments only). If the call loads it (nothing is
  cached, or the cached modification time differs), \<open>get\<close> returns the caller's
  default for every key, without raising, the cache becomes the empty mapping at the
  file's modification time, and every later call on that state returns the default as
  well. If a load is cached at the file's modification time, the file is not read:
  \<open>get\<close> returns the cached value of the key, and the default for a key the cache
  lacks.
\<close>

theorem get_empty_document:
  "(path self \<noteq> None \<and>
    (parsed_values (cache self) = None \<or> last_modified_time (cache self) \<noteq> mtime)
    \<longrightarrow>
    (let loaded_self =
           self\<lparr>cache := \<lparr>last_modified_time = mtime, parsed_values = Some Map.empty\<rparr>\<rparr>
     in (\<forall>key default_value.
           get (Present mtime (Inr YNull)) self key default_value =
             (Inr default_value, loaded_self))
      \<and> (\<forall>key default_value.
           get (Present mtime (Inr YNull)) loaded_self key default_value =
             (Inr default_value, loaded_self))))
   \<and> (path other \<noteq> None \<and> parsed_values (cache other) = Some cached
      \<and> last_modified_time (cache other) = mtime'
      \<longrightarrow>
      (\<forall>key default_value.
         get (Present mtime' (Inr YNull)) other key default_value =
           (Inr (case cached key of None \<Rightarrow> default_value | Some x \<Rightarrow> x), other)))"
  by (auto simp: get_def load_if_file_changed_def Let_def)

text \<open>
  An empty file read by a fresh timing source; and an empty file whose modification
  time is that of a cached load, asked for a key the cache lacks.
\<close>

theorem get_empty_document_witness:
  "get (Present 100 (Inr YNull)) (SleepTimes_init (Some ''sleep.yaml'')) ''between_iterations'' 300 =
     (Inr 300, \<lparr>path = Some ''sleep.yaml'',
                cache = \<lparr>last_modified_time = 100, parsed_values = Some Map.empty\<rparr>\<rparr>)
   \<and> get (Present 100 (Inr YNull))
         \<lparr>path = Some ''sleep.yaml'',
          cache = \<lparr>last_modified_time = 100, parsed_values = Some [''start_app'' \<mapsto> 3]\<rparr>\<rparr>
         ''stop_app'' 15 =
     (Inr 15, \<lparr>path = Some ''sleep.yaml'',
               cache = \<lparr>last_modified_time = 100, parsed_values = Some [''start_app'' \<mapsto> 3]\<rparr>\<rparr>)"
  using get_empty_document [of "SleepTimes_init (Some ''sleep.yaml'')" 100
      "\<lparr>path = Some ''sleep.yaml'',
        cache = \<lparr>last_modified_time = 100, parsed_values = Some [''start_app'' \<mapsto> 3]\<rparr>\<rparr>"
      "[''start_app'' \<mapsto> 3]" 100]
  by (simp add: SleepTimes_init_def Let_def)

text \<open>
  An empty file whose modification time is that of a cached load with
  \<open>start_app: 3\<close>: the file is not read, and \<open>get\<close> returns 3, not the caller's
  default of 15.
\<close>

theorem get_empty_document_cached_counterexample:
  "get (Present 100 (Inr YNull))
       \<lparr>path = Some ''sleep.yaml'',
        cache = \<lparr>last_modified_time = 100, parsed_values = Some [''start_app'' \<mapsto> 3]\<rparr>\<rparr>
       ''start_app'' 15 =
     (Inr 3, \<lparr>path = Some ''sleep.yaml'',
              cache = \<lparr>last_modified_time = 100, parsed_values = Some [''start_app'' \<mapsto> 3]\<rparr>\<rparr>)"
  by (simp add: get_def load_if_file_changed_def)

section \<open>Properties of the iteration clean-up\<close>

lemma emits_seq:
  assumes "list_all2 emits cs chunks" and "list_all local_only chunks"
  shows "emits (seq cs) (\<lambda>s. concat (map (\<lambda>chunk. chunk s) chunks))"
  using assms
proof (induction cs chunks rule: list_all2_induct)
  case Nil
  then show ?case by (simp add: emits_def)
next
  case (Cons c cs chunk chunks)
  then have rest: "emits (seq cs) (\<lambda>s. concat (map (\<lambda>chunk. chunk s) chunks))"
    and lo: "local_only chunk" "list_all local_only chunks" by simp_all
  have same: "concat (map (\<lambda>ch. ch (s\<lparr>trace := t, results := res\<rparr>)) chunks)
      = concat (map (\<lambda>ch. ch s) chunks)" for s t res
    using lo(2) by (induction chunks) (auto simp: local_only_def)
  show ?case
    unfolding emits_def
  proof (intro allI impI)
    fix s r s'
    assume run: "seq (c # cs) s = (r, s')"
    obtain r1 s1 where c: "c s = (r1, s1)" by (cases "c s")
    with Cons.hyps(1) obtain d1 where
      s1: "s1 = s\<lparr>trace := trace s1, results := results s1\<rparr>"
      and t1: "trace s1 = trace s @ d1"
      and p1: "prefix d1 (chunk s)" and full1: "r1 = None \<longrightarrow> d1 = chunk s"
      unfolding emits_def by blast
    show "s' = s\<lparr>trace := trace s', results := results s'\<rparr>
        \<and> (\<exists>done. trace s' = trace s @ done
        \<and> prefix done (concat (map (\<lambda>chunk. chunk s) (chunk # chunks)))
        \<and> (r = None \<longrightarrow> done = concat (map (\<lambda>chunk. chunk s) (chunk # chunks))))"
    proof (cases r1)
      case (Some e)
      with run c have "r = Some e" "s' = s1" by simp_all
      with s1 t1 p1 show ?thesis
        by (auto intro: prefix_order.trans)
    next
      case None
      with run c have "seq cs s1 = (r, s')" by simp
      with rest obtain d2 where
        s2: "s' = s1\<lparr>trace := trace s', results := results s'\<rparr>"
        and t2: "trace s' = trace s1 @ d2"
        and p2: "prefix d2 (concat (map (\<lambda>chunk. chunk s1) chunks))"
        and full2: "r = None \<longrightarrow> d2 = concat (map (\<lambda>chunk. chunk s1) chunks)"
        unfolding emits_def by blast
      have d1: "d1 = chunk s" using None full1 by simp
      have cs1: "concat (map (\<lambda>chunk. chunk s1) chunks) = concat (map (\<lambda>chunk. chunk s) chunks)"
        by (subst s1) (rule same)
      have eq: "s' = s\<lparr>trace := trace s', results := results s'\<rparr>"
        by (subst s2, subst s1) simp
      have "trace s' = trace s @ (d1 @ d2)" using t1 t2 by simp
      moreover have "prefix (d1 @ d2) (concat (map (\<lambda>chunk. chunk s) (chunk # chunks)))"
        using p2 d1 cs1 by simp
      moreover have "r = None \<longrightarrow> d1 @ d2 = concat (map (\<lambda>chunk. chunk s) (chunk # chunks))"
        using full2 d1 cs1 by simp
      ultimately show ?thesis using eq by blast
    qed
  qed
qed

lemma emits_call: "emits (call oc a) (\<lambda>s. [a])"
  by (auto simp: emits_def call_def)

lemma emits_when_call: "emits (when_true b (call oc a)) (\<lambda>s. if b then [a] else [])"
  by (auto simp: emits_def call_def when_true_def skip_def)

lemma emits_kill_tree_of:
  "emits (\<lambda>s. kill_tree_of (server_process s) s)
     (\<lambda>s. case server_process s of None \<Rightarrow> [] | Some t \<Rightarrow> [KillTree t])"
  by (auto simp: emits_def kill_tree_of_def call_def raise_def split: option.splits)

lemma emits_kill_mitm:
  "emits (\<lambda>s. kill_tree_if_set (mitm_process s) s)
     (\<lambda>s. case mitm_process s of None \<Rightarrow> [] | Some t \<Rightarrow> [KillTree t])"
  by (auto simp: emits_def kill_tree_if_set_def kill_tree_of_def call_def skip_def split: option.splits)

lemma emits_kill_frida:
  "emits (\<lambda>s. kill_tree_if_set (frida_process s) s)
     (\<lambda>s. case frida_process s of None \<Rightarrow> [] | Some t \<Rightarrow> [KillTree t])"
  by (auto simp: emits_def kill_tree_if_set_def kill_tree_of_def call_def skip_def split: option.splits)

lemma emits_record: "emits (record_result use_frida i) (\<lambda>s. [])"
  by (auto simp: emits_def record_result_def assign_def)

lemma emits_pull_delete:
  "emits (\<lambda>s. case phone_pcap_name s of
              None \<Rightarrow> raise path_type_error s
            | Some n \<Rightarrow> seq [call oc (PullFileToServer n), call oc (DeleteFileFromPhone n)] s)
     (\<lambda>s. case phone_pcap_name s of
              None \<Rightarrow> [] | Some n \<Rightarrow> [PullFileToServer n, DeleteFileFromPhone n])"
  by (auto simp: emits_def call_def raise_def split: option.splits)

lemma android_lan_finally_emits:
  "emits (android_lan_finally w use_frida i)
     (\<lambda>s. [StopPcapdroid]
           @ (case server_process s of None \<Rightarrow> [] | Some t \<Rightarrow> [KillTree t])
           @ (case mitm_process s of None \<Rightarrow> [] | Some t \<Rightarrow> [KillTree t])
           @ (case frida_process s of None \<Rightarrow> [] | Some t \<Rightarrow> [KillTree t])
           @ (case phone_pcap_name s of
                None \<Rightarrow> [] | Some n \<Rightarrow> [PullFileToServer n, DeleteFileFromPhone n])
           @ (if use_frida then [ApplyRules Down] else [])
           @ [StopApp, TimedSleep ''stop_app''])"
proof -
  let ?chunks = "[(\<lambda>s. [StopPcapdroid]),
     (\<lambda>s. case server_process s of None \<Rightarrow> [] | Some t \<Rightarrow> [KillTree t]),
     (\<lambda>s. case mitm_process s of None \<Rightarrow> [] | Some t \<Rightarrow> [KillTree t]),
     (\<lambda>s. case frida_process s of None \<Rightarrow> [] | Some t \<Rightarrow> [KillTree t]),
     (\<lambda>s. case phone_pcap_name s of
                None \<Rightarrow> [] | Some n \<Rightarrow> [PullFileToServer n, DeleteFileFromPhone n]),
     (\<lambda>s. if use_frida then [ApplyRules Down] else []),
     (\<lambda>s. [StopApp]), (\<lambda>s. [TimedSleep ''stop_app'']), (\<lambda>s. [])]"
  have a: "list_all2 emits (android_lan_finally_steps w use_frida i) ?chunks"
    by (simp add: android_lan_finally_steps_def emits_call emits_when_call emits_kill_tree_of
        emits_kill_mitm emits_kill_frida emits_record emits_pull_delete)
  have b: "list_all local_only ?chunks"
    by (simp add: local_only_def)
  from emits_seq [OF a b] show ?thesis
    by (simp add: android_lan_finally_def)
qed

lemma emits_stop_remote:
  "emits (\<lambda>s. call oc (SshStopRemoteTcpdump RemoteServerSsh (remote_pid s)) s)
     (\<lambda>s. [SshStopRemoteTcpdump RemoteServerSsh (remote_pid s)])"
  by (auto simp: emits_def call_def)

lemma emits_stop_phone:
  "emits (\<lambda>s. call oc (PhoneStopTcpdump (phone_tcpdump_pid s)) s)
     (\<lambda>s. [PhoneStopTcpdump (phone_tcpdump_pid s)])"
  by (auto simp: emits_def call_def)

lemma emits_download_phone:
  "emits (\<lambda>s. case phone_pcap_name s of
              None \<Rightarrow> raise path_type_error s
            | Some n \<Rightarrow> call oc (DownloadRemoteFile PhoneSsh n) s)
     (\<lambda>s. case phone_pcap_name s of None \<Rightarrow> [] | Some n \<Rightarrow> [DownloadRemoteFile PhoneSsh n])"
  by (auto simp: emits_def call_def raise_def split: option.splits)

lemma emits_download_remote:
  "emits (\<lambda>s. case remote_pcap_name s of
              None \<Rightarrow> raise path_type_error s
            | Some n \<Rightarrow>
                (case remote_tcpdump_filename s of
                   None \<Rightarrow> raise path_type_error s
                 | Some f \<Rightarrow> call oc (DownloadRemoteFile RemoteServerSsh f) s))
     (\<lambda>s. case remote_pcap_name s of
              None \<Rightarrow> []
            | Some n \<Rightarrow>
                (case remote_tcpdump_filename s of
                   None \<Rightarrow> []
                 | Some f \<Rightarrow> [DownloadRemoteFile RemoteServerSsh f]))"
  by (auto simp: emits_def call_def raise_def split: option.splits)

lemma emits_reset_rules:
  "emits (when_true b (seq [call oc ResetTerminal, call oc (ApplyRules Down)]))
     (\<lambda>s. if b then [ResetTerminal, ApplyRules Down] else [])"
  by (auto simp: emits_def call_def when_true_def skip_def split: option.splits)

lemma ios_wan_finally_emits:
  "emits (ios_wan_finally w use_frida i)
     (\<lambda>s. [SshStopRemoteTcpdump RemoteServerSsh (remote_pid s),
            PhoneStopTcpdump (phone_tcpdump_pid s)]
           @ (case server_process s of None \<Rightarrow> [] | Some t \<Rightarrow> [KillTree t])
           @ (case mitm_process s of None \<Rightarrow> [] | Some t \<Rightarrow> [KillTree t])
           @ (case frida_process s of None \<Rightarrow> [] | Some t \<Rightarrow> [KillTree t])
           @ (case phone_pcap_name s of
                None \<Rightarrow> [] | Some n \<Rightarrow> [DownloadRemoteFile PhoneSsh n])
           @ (case (remote_pcap_name s, remote_tcpdump_filename s) of
                (Some n, Some f) \<Rightarrow> [DownloadRemoteFile RemoteServerSsh f]
              | _ \<Rightarrow> [])
           @ (if use_frida then [ResetTerminal, ApplyRules Down] else [])
           @ [StopApp, TimedSleep ''stop_app''])"
proof -
  let ?chunks = "[(\<lambda>s. [SshStopRemoteTcpdump RemoteServerSsh (remote_pid s)]),
     (\<lambda>s. [PhoneStopTcpdump (phone_tcpdump_pid s)]),
     (\<lambda>s. case server_process s of None \<Rightarrow> [] | Some t \<Rightarrow> [KillTree t]),
     (\<lambda>s. case mitm_process s of None \<Rightarrow> [] | Some t \<Rightarrow> [KillTree t]),
     (\<lambda>s. case frida_process s of None \<Rightarrow> [] | Some t \<Rightarrow> [KillTree t]),
     (\<lambda>s. case phone_pcap_name s of
                None \<Rightarrow> [] | Some n \<Rightarrow> [DownloadRemoteFile PhoneSsh n]),
     (\<lambda>s. case (remote_pcap_name s, remote_tcpdump_filename s) of
                (Some n, Some f) \<Rightarrow> [DownloadRemoteFile RemoteServerSsh f]
              | _ \<Rightarrow> []),
     (\<lambda>s. if use_frida then [ResetTerminal, ApplyRules Down] else []),
     (\<lambda>s. [StopApp]), (\<lambda>s. [TimedSleep ''stop_app'']), (\<lambda>s. [])]"
  have a: "list_all2 emits (ios_wan_finally_steps w use_frida i) ?chunks"
    by (simp add: ios_wan_finally_steps_def emits_call emits_kill_tree_of
        emits_kill_mitm emits_kill_frida emits_record emits_stop_remote emits_stop_phone
        emits_download_phone emits_download_remote emits_reset_rules)
  have b: "list_all local_only ?chunks"
    by (simp add: local_only_def split: option.splits)
  from emits_seq [OF a b] show ?thesis
    by (simp add: ios_wan_finally_def)
qed

text \<open>
  Claim C4, as amended. The calls an iteration's \<open>finally\<close> block makes are an initial
  part of the list below, and the whole list when the block completes. The captures are
  stopped first (relay, then device, then server), the interception proxy and the
  instrumentation process after them; the device's capture file is retrieved before the
  relay's.
\<close>

theorem cleanup_stop_order:
  "(android_lan_finally w use_frida i s = (r, s') \<longrightarrow>
      (\<exists>done. trace s' = trace s @ done
         \<and> (r = None \<longrightarrow>
              done =
                [StopPcapdroid]
                @ (case server_process s of None \<Rightarrow> [] | Some t \<Rightarrow> [KillTree t])
                @ (case mitm_process s of None \<Rightarrow> [] | Some t \<Rightarrow> [KillTree t])
                @ (case frida_process s of None \<Rightarrow> [] | Some t \<Rightarrow> [KillTree t])
                @ (case phone_pcap_name s of
                     None \<Rightarrow> [] | Some n \<Rightarrow> [PullFileToServer n, DeleteFileFromPhone n])
                @ (if use_frida then [ApplyRules Down] else [])
                @ [StopApp, TimedSleep ''stop_app''])
         \<and> prefix done
              ([StopPcapdroid]
               @ (case server_process s of None \<Rightarrow> [] | Some t \<Rightarrow> [KillTree t])
               @ (case mitm_process s of None \<Rightarrow> [] | Some t \<Rightarrow> [KillTree t])
               @ (case frida_process s of None \<Rightarrow> [] | Some t \<Rightarrow> [KillTree t])
               @ (case phone_pcap_name s of
                    None \<Rightarrow> [] | Some n \<Rightarrow> [PullFileToServer n, DeleteFileFromPhone n])
               @ (if use_frida then [ApplyRules Down] else [])
               @ [StopApp, TimedSleep ''stop_app''])))
   \<and> (ios_wan_finally w use_frida i t = (q, t') \<longrightarrow>
      (\<exists>done. trace t' = trace t @ done
         \<and> (q = None \<longrightarrow>
              done =
                [SshStopRemoteTcpdump RemoteServerSsh (remote_pid t),
                 PhoneStopTcpdump (phone_tcpdump_pid t)]
                @ (case server_process t of None \<Rightarrow> [] | Some p \<Rightarrow> [KillTree p])
                @ (case mitm_process t of None \<Rightarrow> [] | Some p \<Rightarrow> [KillTree p])
                @ (case frida_process t of None \<Rightarrow> [] | Some p \<Rightarrow> [KillTree p])
                @ (case phone_pcap_name t of
                     None \<Rightarrow> [] | Some n \<Rightarrow> [DownloadRemoteFile PhoneSsh n])
                @ (case (remote_pcap_name t, remote_tcpdump_filename t) of
                     (Some n, Some f) \<Rightarrow> [DownloadRemoteFile RemoteServerSsh f]
                   | _ \<Rightarrow> [])
                @ (if use_frida then [ResetTerminal, ApplyRules Down] else [])
                @ [StopApp, TimedSleep ''stop_app''])
         \<and> prefix done
              ([SshStopRemoteTcpdump RemoteServerSsh (remote_pid t),
                PhoneStopTcpdump (phone_tcpdump_pid t)]
               @ (case server_process t of None \<Rightarrow> [] | Some p \<Rightarrow> [KillTree p])
               @ (case mitm_process t of None \<Rightarrow> [] | Some p \<Rightarrow> [KillTree p])
               @ (case frida_process t of None \<Rightarrow> [] | Some p \<Rightarrow> [KillTree p])
               @ (case phone_pcap_name t of
                    None \<Rightarrow> [] | Some n \<Rightarrow> [DownloadRemoteFile PhoneSsh n])
               @ (case (remote_pcap_name t, remote_tcpdump_filename t) of
                    (Some n, Some f) \<Rightarrow> [DownloadRemoteFile RemoteServerSsh f]
                  | _ \<Rightarrow> [])
               @ (if use_frida then [ResetTerminal, ApplyRules Down] else [])
               @ [StopApp, TimedSleep ''stop_app''])))"
proof (intro conjI impI)
  assume run: "android_lan_finally w use_frida i s = (r, s')"
  from android_lan_finally_emits [of w use_frida i] run
  show "\<exists>done. trace s' = trace s @ done
         \<and> (r = None \<longrightarrow>
              done =
                [StopPcapdroid]
                @ (case server_process s of None \<Rightarrow> [] | Some t \<Rightarrow> [KillTree t])
                @ (case mitm_process s of None \<Rightarrow> [] | Some t \<Rightarrow> [KillTree t])
                @ (case frida_process s of None \<Rightarrow> [] | Some t \<Rightarrow> [KillTree t])
                @ (case phone_pcap_name s of
                     None \<Rightarrow> [] | Some n \<Rightarrow> [PullFileToServer n, DeleteFileFromPhone n])
                @ (if use_frida then [ApplyRules Down] else [])
                @ [StopApp, TimedSleep ''stop_app''])
         \<and> prefix done
              ([StopPcapdroid]
               @ (case server_process s of None \<Rightarrow> [] | Some t \<Rightarrow> [KillTree t])
               @ (case mitm_process s of None \<Rightarrow> [] | Some t \<Rightarrow> [KillTree t])
               @ (case frida_process s of None \<Rightarrow> [] | Some t \<Rightarrow> [KillTree t])
               @ (case phone_pcap_name s of
                    None \<Rightarrow> [] | Some n \<Rightarrow> [PullFileToServer n, DeleteFileFromPhone n])
               @ (if use_frida then [ApplyRules Down] else [])
               @ [StopApp, TimedSleep ''stop_app''])"
    unfolding emits_def by blast
next
  assume run: "ios_wan_finally w use_frida i t = (q, t')"
  from ios_wan_finally_emits [of w use_frida i] run
  show "\<exists>done. trace t' = trace t @ done
         \<and> (q = None \<longrightarrow>
              done =
                [SshStopRemoteTcpdump RemoteServerSsh (remote_pid t),
                 PhoneStopTcpdump (phone_tcpdump_pid t)]
                @ (case server_process t of None \<Rightarrow> [] | Some p \<Rightarrow> [KillTree p])
                @ (case mitm_process t of None \<Rightarrow> [] | Some p \<Rightarrow> [KillTree p])
                @ (case frida_process t of None \<Rightarrow> [] | Some p \<Rightarrow> [KillTree p])
                @ (case phone_pcap_name t of
                     None \<Rightarrow> [] | Some n \<Rightarrow> [DownloadRemoteFile PhoneSsh n])
                @ (case (remote_pcap_name t, remote_tcpdump_filename t) of
                     (Some n, Some f) \<Rightarrow> [DownloadRemoteFile RemoteServerSsh f]
                   | _ \<Rightarrow> [])
                @ (if use_frida then [ResetTerminal, ApplyRules Down] else [])
                @ [StopApp, TimedSleep ''stop_app''])
         \<and> prefix done
              ([SshStopRemoteTcpdump RemoteServerSsh (remote_pid t),
                PhoneStopTcpdump (phone_tcpdump_pid t)]
               @ (case server_process t of None \<Rightarrow> [] | Some p \<Rightarrow> [KillTree p])
               @ (case mitm_process t of None \<Rightarrow> [] | Some p \<Rightarrow> [KillTree p])
               @ (case frida_process t of None \<Rightarrow> [] | Some p \<Rightarrow> [KillTree p])
               @ (case phone_pcap_name t of
                    None \<Rightarrow> [] | Some n \<Rightarrow> [DownloadRemoteFile PhoneSsh n])
               @ (case (remote_pcap_name t, remote_tcpdump_filename t) of
                    (Some n, Some f) \<Rightarrow> [DownloadRemoteFile RemoteServerSsh f]
                  | _ \<Rightarrow> [])
               @ (if use_frida then [ResetTerminal, ApplyRules Down] else [])
               @ [StopApp, TimedSleep ''stop_app''])"
    unfolding emits_def by blast
qed

lemmas stmt_defs = skip_def raise_def assign_def when_true_def try_except_def try_finally_def
  call_def kill_tree_of_def kill_tree_if_set_def record_result_def trigger_taps_def
  start_server_tcpdump_def start_mitmdump_def

lemmas run_defs = calm_world_def lamp_context_def initial_state_def num_iterations_def
  phase_name_def pcap_name_def

text \<open>The two clean-ups of an instrumented iteration in which every call succeeds.\<close>

theorem cleanup_stop_order_witness:
  "trace (snd (android_lan_finally calm_world True 1 android_instrumented_state)) =
     [StopPcapdroid, KillTree ServerTcpdump, KillTree Mitmdump, KillTree Frida,
      PullFileToServer ''iteration-1-frida-phone-lamp.pcap'',
      DeleteFileFromPhone ''iteration-1-frida-phone-lamp.pcap'',
      ApplyRules Down, StopApp, TimedSleep ''stop_app'']
   \<and> trace (snd (ios_wan_finally calm_world True 1 ios_wan_instrumented_state)) =
     [SshStopRemoteTcpdump RemoteServerSsh (Some 700), PhoneStopTcpdump (Some 500),
      KillTree ServerTcpdump, KillTree Mitmdump, KillTree Objection,
      DownloadRemoteFile PhoneSsh ''iteration-1-frida-phone-lamp.pcap'',
      DownloadRemoteFile RemoteServerSsh ''/tmp/iteration-1-frida-remote-lamp.pcap'',
      ResetTerminal, ApplyRules Down, StopApp, TimedSleep ''stop_app'']"
  using cleanup_stop_order
    [of calm_world True 1 android_instrumented_state
        "fst (android_lan_finally calm_world True 1 android_instrumented_state)"
        "snd (android_lan_finally calm_world True 1 android_instrumented_state)"
        ios_wan_instrumented_state
        "fst (ios_wan_finally calm_world True 1 ios_wan_instrumented_state)"
        "snd (ios_wan_finally calm_world True 1 ios_wan_instrumented_state)"]
  by (simp add: android_lan_finally_def android_lan_finally_steps_def ios_wan_finally_def
      ios_wan_finally_steps_def stmt_defs run_defs android_instrumented_state_def
      ios_wan_instrumented_state_def)

text \<open>
  One instrumented iteration of each runner in a world where every call succeeds. In
  both, the server capture (and before it the device and relay captures) is stopped
  before the proxy and the instrumentation process, against the order of the claim.
\<close>

theorem cleanup_stop_order_counterexample:
  "trace (snd (android_lan_iteration calm_world (lamp_context Android Lan 0 1) True 1
                 initial_state)) =
     [ApplyRules Up, ServerStartTcpdump, StartPcapdroid ''iteration-1-frida-phone-lamp.pcap'',
      StartMitmdump, StartFrida, TimedSleep ''start_app'', TriggerTaps,
      TimedSleep ''between_iterations'',
      StopPcapdroid, KillTree ServerTcpdump, KillTree Mitmdump, KillTree Frida,
      PullFileToServer ''iteration-1-frida-phone-lamp.pcap'',
      DeleteFileFromPhone ''iteration-1-frida-phone-lamp.pcap'',
      ApplyRules Down, StopApp, TimedSleep ''stop_app'']
   \<and> trace (snd (ios_wan_iteration calm_world (lamp_context IOS Wan 0 1) True 1
                   initial_state)) =
     [ApplyRules Up, ServerStartTcpdump,
      SshStartRemoteTcpdump PhoneSsh ''iteration-1-frida-phone-lamp.pcap'',
      SshStartRemoteTcpdump RemoteServerSsh ''/tmp/iteration-1-frida-remote-lamp.pcap'',
      StartMitmdump, StartApp, TimedSleep ''start_app'', StartObjection, TriggerTaps,
      TimedSleep ''between_iterations'',
      SshStopRemoteTcpdump RemoteServerSsh (Some 700), PhoneStopTcpdump (Some 500),
      KillTree ServerTcpdump, KillTree Mitmdump, KillTree Objection,
      DownloadRemoteFile PhoneSsh ''iteration-1-frida-phone-lamp.pcap'',
      DownloadRemoteFile RemoteServerSsh ''/tmp/iteration-1-frida-remote-lamp.pcap'',
      ResetTerminal, ApplyRules Down, StopApp, TimedSleep ''stop_app'']
   \<and> KillTree ServerTcpdump \<in> set (takeWhile (\<lambda>a. a \<noteq> KillTree Mitmdump)
        (trace (snd (android_lan_iteration calm_world (lamp_context Android Lan 0 1) True 1
                       initial_state))))
   \<and> StopPcapdroid \<in> set (takeWhile (\<lambda>a. a \<noteq> KillTree Frida)
        (trace (snd (android_lan_iteration calm_world (lamp_context Android Lan 0 1) True 1
                       initial_state))))"
  by (simp add: android_lan_iteration_def android_lan_body_def android_lan_finally_def
      android_lan_finally_steps_def ios_wan_iteration_def ios_wan_body_def ios_wan_finally_def
      ios_wan_finally_steps_def stmt_defs run_defs str_int_1)

lemma seq_snoc:
  "seq (cs @ [c]) s = (case seq cs s of (Some e, s') \<Rightarrow> (Some e, s') | (None, s') \<Rightarrow> c s')"
proof (induction cs arbitrary: s)
  case Nil
  then show ?case by (cases "c s") (auto split: option.splits)
next
  case (Cons d ds)
  then show ?case by (cases "d s") (auto split: option.splits)
qed

lemma run_calls_append:
  "run_calls oc (xs @ ys) =
     (case run_calls oc xs of
        (Some e, made) \<Rightarrow> (Some e, made)
      | (None, made) \<Rightarrow> (fst (run_calls oc ys), made @ snd (run_calls oc ys)))"
  by (induction xs) (auto split: option.splits prod.splits)

lemma run_calls_first_failure:
  "\<forall>b \<in> set pre. oc b = None \<Longrightarrow> oc a = Some e \<Longrightarrow>
   run_calls oc (pre @ a # post) = (Some e, pre @ [a])"
  by (induction pre) auto

lemma performs_seq:
  assumes "list_all2 (performs oc ready) cs chunks"
    and "list_all local_only chunks"
    and "\<And>s t. ready (s\<lparr>trace := t\<rparr>) = ready s"
  shows "performs oc ready (seq cs) (\<lambda>s. concat (map (\<lambda>chunk. chunk s) chunks))"
  using assms(1,2)
proof (induction cs chunks rule: list_all2_induct)
  case Nil
  then show ?case by (simp add: performs_def)
next
  case (Cons c cs chunk chunks)
  then have rest: "performs oc ready (seq cs) (\<lambda>s. concat (map (\<lambda>chunk. chunk s) chunks))"
    and lo: "list_all local_only chunks" by simp_all
  have same: "concat (map (\<lambda>ch. ch (s\<lparr>trace := t\<rparr>)) chunks) = concat (map (\<lambda>ch. ch s) chunks)"
    for s t
  proof -
    have "ch (s\<lparr>trace := t\<rparr>) = ch s" if "local_only ch" for ch
    proof -
      from that have "ch (s\<lparr>trace := t, results := results s\<rparr>) = ch s"
        unfolding local_only_def by blast
      then show ?thesis by simp
    qed
    then show ?thesis using lo by (induction chunks) auto
  qed
  show ?case
    unfolding performs_def
  proof (intro allI impI)
    fix s assume rdy: "ready s"
    let ?rest = "concat (map (\<lambda>chunk. chunk s) chunks)"
    from Cons.hyps(1) rdy have c: "c s = (fst (run_calls oc (chunk s)),
        s\<lparr>trace := trace s @ snd (run_calls oc (chunk s))\<rparr>)"
      unfolding performs_def by blast
    obtain r1 m1 where rc: "run_calls oc (chunk s) = (r1, m1)" by (cases "run_calls oc (chunk s)")
    show "seq (c # cs) s =
        (fst (run_calls oc (concat (map (\<lambda>chunk. chunk s) (chunk # chunks)))),
         s\<lparr>trace := trace s @ snd (run_calls oc (concat (map (\<lambda>chunk. chunk s) (chunk # chunks))))\<rparr>)"
    proof (cases r1)
      case (Some e)
      then show ?thesis using c rc by (simp add: run_calls_append)
    next
      case None
      let ?s1 = "s\<lparr>trace := trace s @ m1\<rparr>"
      have "ready ?s1" using rdy assms(3) by simp
      with rest have "seq cs ?s1 = (fst (run_calls oc (concat (map (\<lambda>chunk. chunk ?s1) chunks))),
          ?s1\<lparr>trace := trace ?s1 @ snd (run_calls oc (concat (map (\<lambda>chunk. chunk ?s1) chunks)))\<rparr>)"
        unfolding performs_def by blast
      then have "seq cs ?s1 = (fst (run_calls oc ?rest),
          s\<lparr>trace := trace s @ m1 @ snd (run_calls oc ?rest)\<rparr>)"
        by (simp add: same)
      then show ?thesis using c rc None by (simp add: run_calls_append)
    qed
  qed
qed

lemma performs_call:
  "oc' a = oc a \<Longrightarrow> performs oc' ready (call oc a) (\<lambda>s. [a])"
  by (auto simp: performs_def call_def split: option.splits)

lemma performs_when_call:
  "oc' a = oc a \<Longrightarrow> performs oc' ready (when_true b (call oc a)) (\<lambda>s. if b then [a] else [])"
  by (auto simp: performs_def call_def when_true_def skip_def split: option.splits)

lemma performs_kill_server:
  "\<forall>s. ready s \<longrightarrow> server_process s \<noteq> None \<Longrightarrow>
   performs (cleanup_outcome w i) ready
     (\<lambda>s. kill_tree_of (server_process s) s) (\<lambda>s. handle_calls (server_process s))"
  by (auto simp: performs_def kill_tree_of_def call_def handle_calls_def cleanup_outcome_def)

lemma performs_kill_mitm:
  "performs (cleanup_outcome w i) ready
     (\<lambda>s. kill_tree_if_set (mitm_process s) s) (\<lambda>s. handle_calls (mitm_process s))"
  by (auto simp: performs_def kill_tree_if_set_def kill_tree_of_def call_def handle_calls_def
      cleanup_outcome_def skip_def split: option.splits)

lemma performs_kill_frida:
  "performs (cleanup_outcome w i) ready
     (\<lambda>s. kill_tree_if_set (frida_process s) s) (\<lambda>s. handle_calls (frida_process s))"
  by (auto simp: performs_def kill_tree_if_set_def kill_tree_of_def call_def handle_calls_def
      cleanup_outcome_def skip_def split: option.splits)

lemma performs_pull_delete:
  "\<forall>s. ready s \<longrightarrow> phone_pcap_name s \<noteq> None \<Longrightarrow>
   performs (cleanup_outcome w i) ready
     (\<lambda>s. case phone_pcap_name s of
              None \<Rightarrow> raise path_type_error s
            | Some n \<Rightarrow> seq [call (outcome w i) (PullFileToServer n),
                              call (outcome w i) (DeleteFileFromPhone n)] s)
     (\<lambda>s. case phone_pcap_name s of
              None \<Rightarrow> [] | Some n \<Rightarrow> [PullFileToServer n, DeleteFileFromPhone n])"
  by (auto simp: performs_def call_def cleanup_outcome_def split: option.splits)

lemma android_lan_cleanup_performs:
  "performs (cleanup_outcome w i) (\<lambda>s. server_process s \<noteq> None \<and> phone_pcap_name s \<noteq> None)
     (seq (butlast (android_lan_finally_steps w use_frida i)))
     (android_lan_cleanup_calls use_frida)"
proof -
  define ready where "ready = (\<lambda>s::phase_state. server_process s \<noteq> None \<and> phone_pcap_name s \<noteq> None)"
  let ?chunks = "[(\<lambda>s. [StopPcapdroid]),
     (\<lambda>s. handle_calls (server_process s)),
     (\<lambda>s. handle_calls (mitm_process s)),
     (\<lambda>s. handle_calls (frida_process s)),
     (\<lambda>s. case phone_pcap_name s of
                None \<Rightarrow> [] | Some n \<Rightarrow> [PullFileToServer n, DeleteFileFromPhone n]),
     (\<lambda>s. if use_frida then [ApplyRules Down] else []),
     (\<lambda>s. [StopApp]), (\<lambda>s. [TimedSleep ''stop_app''])]"
  have k: "performs (cleanup_outcome w i) ready
      (\<lambda>s. kill_tree_of (server_process s) s) (\<lambda>s. handle_calls (server_process s))"
    by (rule performs_kill_server) (simp add: ready_def)
  have p: "performs (cleanup_outcome w i) ready
     (\<lambda>s. case phone_pcap_name s of
              None \<Rightarrow> raise path_type_error s
            | Some n \<Rightarrow> seq [call (outcome w i) (PullFileToServer n),
                              call (outcome w i) (DeleteFileFromPhone n)] s)
     (\<lambda>s. case phone_pcap_name s of
              None \<Rightarrow> [] | Some n \<Rightarrow> [PullFileToServer n, DeleteFileFromPhone n])"
    by (rule performs_pull_delete) (simp add: ready_def)
  have a: "list_all2 (performs (cleanup_outcome w i) ready)
      (butlast (android_lan_finally_steps w use_frida i)) ?chunks"
    by (simp add: android_lan_finally_steps_def performs_call performs_when_call
        k performs_kill_mitm performs_kill_frida p cleanup_outcome_def)
  have b: "list_all local_only ?chunks"
    by (simp add: local_only_def handle_calls_def split: option.splits)
  have "performs (cleanup_outcome w i) ready
      (seq (butlast (android_lan_finally_steps w use_frida i)))
      (\<lambda>s. concat (map (\<lambda>chunk. chunk s) ?chunks))"
    by (rule performs_seq [OF a b]) (simp add: ready_def)
  then show ?thesis
    by (simp add: android_lan_cleanup_calls_def [abs_def] ready_def)
qed

lemma performs_stop_remote:
  "performs (cleanup_outcome w i) ready
     (\<lambda>s. call (outcome w i) (SshStopRemoteTcpdump RemoteServerSsh (remote_pid s)) s)
     (\<lambda>s. [SshStopRemoteTcpdump RemoteServerSsh (remote_pid s)])"
  by (auto simp: performs_def call_def cleanup_outcome_def split: option.splits)

lemma performs_stop_phone:
  "performs (cleanup_outcome w i) ready
     (\<lambda>s. call (outcome w i) (PhoneStopTcpdump (phone_tcpdump_pid s)) s)
     (\<lambda>s. [PhoneStopTcpdump (phone_tcpdump_pid s)])"
  by (auto simp: performs_def call_def cleanup_outcome_def split: option.splits)

lemma performs_download_phone:
  "\<forall>s. ready s \<longrightarrow> phone_pcap_name s \<noteq> None \<Longrightarrow>
   performs (cleanup_outcome w i) ready
     (\<lambda>s. case phone_pcap_name s of
              None \<Rightarrow> raise path_type_error s
            | Some n \<Rightarrow> call (outcome w i) (DownloadRemoteFile PhoneSsh n) s)
     (\<lambda>s. case phone_pcap_name s of None \<Rightarrow> [] | Some n \<Rightarrow> [DownloadRemoteFile PhoneSsh n])"
  by (auto simp: performs_def call_def cleanup_outcome_def split: option.splits)

lemma performs_download_remote:
  "\<forall>s. ready s \<longrightarrow> remote_pcap_name s \<noteq> None \<and> remote_tcpdump_filename s \<noteq> None \<Longrightarrow>
   performs (cleanup_outcome w i) ready
     (\<lambda>s. case remote_pcap_name s of
              None \<Rightarrow> raise path_type_error s
            | Some n \<Rightarrow>
                (case remote_tcpdump_filename s of
                   None \<Rightarrow> raise path_type_error s
                 | Some f \<Rightarrow> call (outcome w i) (DownloadRemoteFile RemoteServerSsh f) s))
     (\<lambda>s. case remote_tcpdump_filename s of
              None \<Rightarrow> [] | Some f \<Rightarrow> [DownloadRemoteFile RemoteServerSsh f])"
  by (auto simp: performs_def call_def cleanup_outcome_def split: option.splits)

lemma performs_reset_rules:
  "performs (cleanup_outcome w i) ready
     (when_true b (seq [call (outcome w i) ResetTerminal, call (outcome w i) (ApplyRules Down)]))
     (\<lambda>s. if b then [ResetTerminal, ApplyRules Down] else [])"
  by (auto simp: performs_def call_def when_true_def skip_def cleanup_outcome_def
      split: option.splits)

lemma ios_wan_cleanup_performs:
  "performs (cleanup_outcome w i)
     (\<lambda>s. server_process s \<noteq> None \<and> phone_pcap_name s \<noteq> None
          \<and> remote_pcap_name s \<noteq> None \<and> remote_tcpdump_filename s \<noteq> None)
     (seq (butlast (ios_wan_finally_steps w use_frida i)))
     (ios_wan_cleanup_calls use_frida)"
proof -
  define ready where "ready = (\<lambda>s::phase_state. server_process s \<noteq> None
      \<and> phone_pcap_name s \<noteq> None \<and> remote_pcap_name s \<noteq> None
      \<and> remote_tcpdump_filename s \<noteq> None)"
  let ?chunks = "[(\<lambda>s. [SshStopRemoteTcpdump RemoteServerSsh (remote_pid s)]),
     (\<lambda>s. [PhoneStopTcpdump (phone_tcpdump_pid s)]),
     (\<lambda>s. handle_calls (server_process s)),
     (\<lambda>s. handle_calls (mitm_process s)),
     (\<lambda>s. handle_calls (frida_process s)),
     (\<lambda>s. case phone_pcap_name s of None \<Rightarrow> [] | Some n \<Rightarrow> [DownloadRemoteFile PhoneSsh n]),
     (\<lambda>s. case remote_tcpdump_filename s of
              None \<Rightarrow> [] | Some f \<Rightarrow> [DownloadRemoteFile RemoteServerSsh f]),
     (\<lambda>s. if use_frida then [ResetTerminal, ApplyRules Down] else []),
     (\<lambda>s. [StopApp]), (\<lambda>s. [TimedSleep ''stop_app''])]"
  have k: "performs (cleanup_outcome w i) ready
      (\<lambda>s. kill_tree_of (server_process s) s) (\<lambda>s. handle_calls (server_process s))"
    by (rule performs_kill_server) (simp add: ready_def)
  have p: "performs (cleanup_outcome w i) ready
     (\<lambda>s. case phone_pcap_name s of
              None \<Rightarrow> raise path_type_error s
            | Some n \<Rightarrow> call (outcome w i) (DownloadRemoteFile PhoneSsh n) s)
     (\<lambda>s. case phone_pcap_name s of None \<Rightarrow> [] | Some n \<Rightarrow> [DownloadRemoteFile PhoneSsh n])"
    by (rule performs_download_phone) (simp add: ready_def)
  have q: "performs (cleanup_outcome w i) ready
     (\<lambda>s. case remote_pcap_name s of
              None \<Rightarrow> raise path_type_error s
            | Some n \<Rightarrow>
                (case remote_tcpdump_filename s of
                   None \<Rightarrow> raise path_type_error s
                 | Some f \<Rightarrow> call (outcome w i) (DownloadRemoteFile RemoteServerSsh f) s))
     (\<lambda>s. case remote_tcpdump_filename s of
              None \<Rightarrow> [] | Some f \<Rightarrow> [DownloadRemoteFile RemoteServerSsh f])"
    by (rule performs_download_remote) (simp add: ready_def)
  have a: "list_all2 (performs (cleanup_outcome w i) ready)
      (butlast (ios_wan_finally_steps w use_frida i)) ?chunks"
    by (simp add: ios_wan_finally_steps_def performs_call performs_when_call
        k performs_kill_mitm performs_kill_frida p q performs_stop_remote performs_stop_phone
        performs_reset_rules cleanup_outcome_def)
  have b: "list_all local_only ?chunks"
    by (simp add: local_only_def handle_calls_def split: option.splits)
  have "performs (cleanup_outcome w i) ready
      (seq (butlast (ios_wan_finally_steps w use_frida i)))
      (\<lambda>s. concat (map (\<lambda>chunk. chunk s) ?chunks))"
    by (rule performs_seq [OF a b]) (simp add: ready_def)
  then show ?thesis
    by (simp add: ios_wan_cleanup_calls_def [abs_def] ready_def)
qed

lemma performs_write_summary:
  "performs (clean_up_outcome oc) ready (write_summary oc) (\<lambda>s. [WriteSummary])"
  by (auto simp: performs_def write_summary_def summarise_iterations_def clean_up_outcome_def)

lemma clean_up_performs:
  "performs (clean_up_outcome oc) (\<lambda>s. True) (seq (clean_up_steps oc)) (\<lambda>s. clean_up_calls)"
proof -
  let ?chunks = "[(\<lambda>s::phase_state. [PullBluetoothLog]), (\<lambda>s. [UninstallApp]), (\<lambda>s. [Reboot]),
     (\<lambda>s. [WriteSummary])]"
  have a: "list_all2 (performs (clean_up_outcome oc) (\<lambda>s. True)) (clean_up_steps oc) ?chunks"
    by (simp add: clean_up_steps_def performs_call performs_write_summary clean_up_outcome_def)
  have b: "list_all local_only ?chunks"
    by (simp add: local_only_def)
  have "performs (clean_up_outcome oc) (\<lambda>s. True) (seq (clean_up_steps oc))
      (\<lambda>s. concat (map (\<lambda>chunk. chunk s) ?chunks))"
    by (rule performs_seq [OF a b]) simp
  then show ?thesis by (simp add: clean_up_calls_def)
qed

text \<open>The \<open>finally\<close> blocks as runs of their calls, the ledger append last.\<close>

lemma android_lan_finally_run:
  assumes "server_process s \<noteq> None" and "phone_pcap_name s \<noteq> None"
  shows "fst (android_lan_finally w use_frida i s) =
           fst (run_calls (cleanup_outcome w i) (android_lan_cleanup_calls use_frida s))"
    and "trace (snd (android_lan_finally w use_frida i s)) =
           trace s @ snd (run_calls (cleanup_outcome w i) (android_lan_cleanup_calls use_frida s))"
proof -
  let ?init = "butlast (android_lan_finally_steps w use_frida i)"
  let ?rc = "run_calls (cleanup_outcome w i) (android_lan_cleanup_calls use_frida s)"
  have steps: "android_lan_finally_steps w use_frida i = ?init @ [record_result use_frida i]"
    by (simp add: android_lan_finally_steps_def)
  have init: "seq ?init s = (fst ?rc, s\<lparr>trace := trace s @ snd ?rc\<rparr>)"
    using android_lan_cleanup_performs [of w i use_frida] assms unfolding performs_def by blast
  have whole: "android_lan_finally w use_frida i s =
      (case seq ?init s of (Some e, s') \<Rightarrow> (Some e, s') | (None, s') \<Rightarrow> record_result use_frida i s')"
    unfolding android_lan_finally_def by (subst steps) (rule seq_snoc)
  show "fst (android_lan_finally w use_frida i s) = fst ?rc"
    unfolding whole init by (cases "fst ?rc") (simp_all add: record_result_def assign_def)
  show "trace (snd (android_lan_finally w use_frida i s)) = trace s @ snd ?rc"
    unfolding whole init by (cases "fst ?rc") (simp_all add: record_result_def assign_def)
qed

lemma ios_wan_finally_run:
  assumes "server_process s \<noteq> None" and "phone_pcap_name s \<noteq> None"
    and "remote_pcap_name s \<noteq> None" and "remote_tcpdump_filename s \<noteq> None"
  shows "fst (ios_wan_finally w use_frida i s) =
           fst (run_calls (cleanup_outcome w i) (ios_wan_cleanup_calls use_frida s))"
    and "trace (snd (ios_wan_finally w use_frida i s)) =
           trace s @ snd (run_calls (cleanup_outcome w i) (ios_wan_cleanup_calls use_frida s))"
proof -
  let ?init = "butlast (ios_wan_finally_steps w use_frida i)"
  let ?rc = "run_calls (cleanup_outcome w i) (ios_wan_cleanup_calls use_frida s)"
  have steps: "ios_wan_finally_steps w use_frida i = ?init @ [record_result use_frida i]"
    by (simp add: ios_wan_finally_steps_def)
  have init: "seq ?init s = (fst ?rc, s\<lparr>trace := trace s @ snd ?rc\<rparr>)"
    using ios_wan_cleanup_performs [of w i use_frida] assms unfolding performs_def by blast
  have whole: "ios_wan_finally w use_frida i s =
      (case seq ?init s of (Some e, s') \<Rightarrow> (Some e, s') | (None, s') \<Rightarrow> record_result use_frida i s')"
    unfolding ios_wan_finally_def by (subst steps) (rule seq_snoc)
  show "fst (ios_wan_finally w use_frida i s) = fst ?rc"
    unfolding whole init by (cases "fst ?rc") (simp_all add: record_result_def assign_def)
  show "trace (snd (ios_wan_finally w use_frida i s)) = trace s @ snd ?rc"
    unfolding whole init by (cases "fst ?rc") (simp_all add: record_result_def assign_def)
qed

lemma clean_up_run:
  "fst (clean_up oc s) =
     map_option ExperimentError (fst (run_calls (clean_up_outcome oc) clean_up_calls))"
  "trace (snd (clean_up oc s)) = trace s @ snd (run_calls (clean_up_outcome oc) clean_up_calls)"
proof -
  let ?rc = "run_calls (clean_up_outcome oc) clean_up_calls"
  have body: "seq (clean_up_steps oc) s = (fst ?rc, s\<lparr>trace := trace s @ snd ?rc\<rparr>)"
    using clean_up_performs [of oc] unfolding performs_def by blast
  show "fst (clean_up oc s) = map_option ExperimentError (fst ?rc)"
    by (cases "fst ?rc") (simp_all add: clean_up_def try_except_def raise_def body)
  show "trace (snd (clean_up oc s)) = trace s @ snd ?rc"
    by (cases "fst ?rc") (simp_all add: clean_up_def try_except_def raise_def body)
qed

text \<open>An iteration is its \<open>finally\<close> block run after the guarded body, which never raises.\<close>

lemma android_lan_iteration_is_finally:
  "android_lan_iteration w ctx use_frida i s =
     android_lan_finally w use_frida i
       (snd (try_except (android_lan_body w ctx use_frida i)
               (\<lambda>ex. assign (\<lambda>s. s\<lparr>success := False\<rparr>))
               (s\<lparr>server_process := None, mitm_process := None, frida_process := None,
                  success := True\<rparr>)))"
  by (simp add: android_lan_iteration_def try_finally_def try_except_def assign_def
      split: prod.splits option.splits)

lemma ios_wan_iteration_is_finally:
  "ios_wan_iteration w ctx use_frida i s =
     ios_wan_finally w use_frida i
       (snd (try_except (ios_wan_body w ctx use_frida i)
               (\<lambda>ex. assign (\<lambda>s. s\<lparr>success := False\<rparr>))
               (s\<lparr>server_process := None, mitm_process := None, frida_process := None,
                  remote_pid := None, remote_tcpdump_filename := None,
                  remote_pcap_name := None, success := True\<rparr>)))"
  by (simp add: ios_wan_iteration_def try_finally_def try_except_def assign_def
      split: prod.splits option.splits)

lemma android_first_stop_fails:
  assumes "outcome w i StopPcapdroid = Some e"
  shows "android_lan_finally w use_frida i s = (Some e, s\<lparr>trace := trace s @ [StopPcapdroid]\<rparr>)"
  using assms by (simp add: android_lan_finally_def android_lan_finally_steps_def call_def)

lemma ios_wan_first_stop_fails:
  assumes "\<forall>pid. outcome w i (SshStopRemoteTcpdump RemoteServerSsh pid) = Some e"
  shows "ios_wan_finally w use_frida i s =
     (Some e, s\<lparr>trace := trace s @ [SshStopRemoteTcpdump RemoteServerSsh (remote_pid s)]\<rparr>)"
  using assms by (simp add: ios_wan_finally_def ios_wan_finally_steps_def call_def)

lemma android_phase_first_stop_fails:
  assumes "outcome w 0 MkdirTargetDir = None" and "1 \<le> num_iterations ctx use_frida"
    and "outcome w 1 StopPcapdroid = Some e"
  shows "fst (android_lan_iteration_phase w ctx use_frida s) = Some e"
    and "last (trace (snd (android_lan_iteration_phase w ctx use_frida s))) = StopPcapdroid"
proof -
  have up: "[1 .. num_iterations ctx use_frida] = 1 # [2 .. num_iterations ctx use_frida]"
    using assms(2) by (simp add: upto_rec1)
  have it: "android_lan_iteration w ctx use_frida 1 t =
      (Some e, (snd (try_except (android_lan_body w ctx use_frida 1)
               (\<lambda>ex. assign (\<lambda>s. s\<lparr>success := False\<rparr>))
               (t\<lparr>server_process := None, mitm_process := None, frida_process := None,
                  success := True\<rparr>)))
         \<lparr>trace := trace (snd (try_except (android_lan_body w ctx use_frida 1)
               (\<lambda>ex. assign (\<lambda>s. s\<lparr>success := False\<rparr>))
               (t\<lparr>server_process := None, mitm_process := None, frida_process := None,
                  success := True\<rparr>))) @ [StopPcapdroid]\<rparr>)" for t
    unfolding android_lan_iteration_is_finally by (rule android_first_stop_fails [OF assms(3)])
  show "fst (android_lan_iteration_phase w ctx use_frida s) = Some e"
    by (simp add: android_lan_iteration_phase_def assign_def call_def assms(1) up it)
  show "last (trace (snd (android_lan_iteration_phase w ctx use_frida s))) = StopPcapdroid"
    by (simp add: android_lan_iteration_phase_def assign_def call_def assms(1) up it)
qed

lemma ios_wan_phase_first_stop_fails:
  assumes "outcome w 0 MkdirTargetDir = None" and "outcome w 0 SshCreateFolder = None"
    and "1 \<le> num_iterations ctx use_frida"
    and "\<forall>pid. outcome w 1 (SshStopRemoteTcpdump RemoteServerSsh pid) = Some e"
  shows "fst (ios_wan_iteration_phase w ctx use_frida s) = Some e"
    and "is_stop_call (last (trace (snd (ios_wan_iteration_phase w ctx use_frida s))))"
proof -
  have up: "[1 .. num_iterations ctx use_frida] = 1 # [2 .. num_iterations ctx use_frida]"
    using assms(3) by (simp add: upto_rec1)
  have it: "\<exists>t' pid. ios_wan_iteration w ctx use_frida 1 t =
      (Some e, t'\<lparr>trace := trace t' @ [SshStopRemoteTcpdump RemoteServerSsh pid]\<rparr>)" for t
    unfolding ios_wan_iteration_is_finally
    using ios_wan_first_stop_fails [OF assms(4)] by blast
  let ?t = "s\<lparr>phone_pcap_name := None, phone_tcpdump_pid := None,
               trace := trace s @ [MkdirTargetDir, SshCreateFolder]\<rparr>"
  from it [of ?t] obtain t' pid where run: "ios_wan_iteration w ctx use_frida 1 ?t =
      (Some e, t'\<lparr>trace := trace t' @ [SshStopRemoteTcpdump RemoteServerSsh pid]\<rparr>)" by blast
  have ph: "ios_wan_iteration_phase w ctx use_frida s =
      (Some e, t'\<lparr>trace := trace t' @ [SshStopRemoteTcpdump RemoteServerSsh pid]\<rparr>)"
    using run by (simp add: ios_wan_iteration_phase_def assign_def call_def assms(1,2) up)
  show "fst (ios_wan_iteration_phase w ctx use_frida s) = Some e" by (simp add: ph)
  show "is_stop_call (last (trace (snd (ios_wan_iteration_phase w ctx use_frida s))))"
    by (simp add: ph)
qed

text \<open>The loop over the iterations ends at the first iteration that raises.\<close>

lemma for_each_first_failure:
  "for_each pre body s = (None, s1) \<Longrightarrow> body x s1 = (Some e, s2) \<Longrightarrow>
   for_each (pre @ x # post) body s = (Some e, s2)"
proof (induction pre arbitrary: s)
  case Nil
  then show ?case by simp
next
  case (Cons y ys)
  then show ?case by (cases "body y s") (auto split: option.splits)
qed

lemma android_phase_cleanup_call_fails:
  assumes mk: "outcome w 0 MkdirTargetDir = None"
    and j1: "1 \<le> j" and j2: "j \<le> num_iterations ctx use_frida"
    and before: "for_each [1 .. j - 1] (android_lan_iteration w ctx use_frida)
                   (s\<lparr>phone_pcap_name := None, trace := trace s @ [MkdirTargetDir]\<rparr>) = (None, sj)"
    and t: "android_lan_at_finally w ctx use_frida j sj = t"
    and h1: "server_process t \<noteq> None" and h2: "phone_pcap_name t \<noteq> None"
    and calls: "android_lan_cleanup_calls use_frida t = pre @ a # post"
    and ok: "\<forall>b \<in> set pre. cleanup_outcome w j b = None"
    and bad: "cleanup_outcome w j a = Some e"
  shows "fst (android_lan_iteration_phase w ctx use_frida s) = Some e"
    and "trace (snd (android_lan_iteration_phase w ctx use_frida s)) = trace t @ pre @ [a]"
proof -
  have it: "android_lan_iteration w ctx use_frida j sj = android_lan_finally w use_frida j t"
    unfolding android_lan_iteration_is_finally t [symmetric] android_lan_at_finally_def ..
  have rc: "run_calls (cleanup_outcome w j) (android_lan_cleanup_calls use_frida t)
      = (Some e, pre @ [a])"
    unfolding calls by (rule run_calls_first_failure [OF ok bad])
  obtain r s2 where fin: "android_lan_finally w use_frida j t = (r, s2)"
    by (cases "android_lan_finally w use_frida j t")
  have r: "r = Some e" using android_lan_finally_run(1) [OF h1 h2, of w use_frida j] rc fin by simp
  have tr: "trace s2 = trace t @ pre @ [a]"
    using android_lan_finally_run(2) [OF h1 h2, of w use_frida j] rc fin by simp
  have loop: "for_each [1 .. num_iterations ctx use_frida] (android_lan_iteration w ctx use_frida)
                (s\<lparr>phone_pcap_name := None, trace := trace s @ [MkdirTargetDir]\<rparr>) = (Some e, s2)"
    unfolding upto_split3 [OF j1 j2]
    by (rule for_each_first_failure [OF before]) (simp add: it fin r)
  have ph: "android_lan_iteration_phase w ctx use_frida s = (Some e, s2)"
    by (simp add: android_lan_iteration_phase_def assign_def call_def mk loop)
  show "fst (android_lan_iteration_phase w ctx use_frida s) = Some e" by (simp add: ph)
  show "trace (snd (android_lan_iteration_phase w ctx use_frida s)) = trace t @ pre @ [a]"
    by (simp add: ph tr)
qed

lemma ios_wan_phase_cleanup_call_fails:
  assumes mk: "outcome w 0 MkdirTargetDir = None" and cf: "outcome w 0 SshCreateFolder = None"
    and j1: "1 \<le> j" and j2: "j \<le> num_iterations ctx use_frida"
    and before: "for_each [1 .. j - 1] (ios_wan_iteration w ctx use_frida)
                   (s\<lparr>phone_pcap_name := None, phone_tcpdump_pid := None,
                      trace := trace s @ [MkdirTargetDir, SshCreateFolder]\<rparr>) = (None, sj)"
    and t: "ios_wan_at_finally w ctx use_frida j sj = t"
    and h1: "server_process t \<noteq> None" and h2: "phone_pcap_name t \<noteq> None"
    and h3: "remote_pcap_name t \<noteq> None" and h4: "remote_tcpdump_filename t \<noteq> None"
    and calls: "ios_wan_cleanup_calls use_frida t = pre @ a # post"
    and ok: "\<forall>b \<in> set pre. cleanup_outcome w j b = None"
    and bad: "cleanup_outcome w j a = Some e"
  shows "fst (ios_wan_iteration_phase w ctx use_frida s) = Some e"
    and "trace (snd (ios_wan_iteration_phase w ctx use_frida s)) = trace t @ pre @ [a]"
proof -
  have it: "ios_wan_iteration w ctx use_frida j sj = ios_wan_finally w use_frida j t"
    unfolding ios_wan_iteration_is_finally t [symmetric] ios_wan_at_finally_def ..
  have rc: "run_calls (cleanup_outcome w j) (ios_wan_cleanup_calls use_frida t)
      = (Some e, pre @ [a])"
    unfolding calls by (rule run_calls_first_failure [OF ok bad])
  obtain r s2 where fin: "ios_wan_finally w use_frida j t = (r, s2)"
    by (cases "ios_wan_finally w use_frida j t")
  have r: "r = Some e"
    using ios_wan_finally_run(1) [OF h1 h2 h3 h4, of w use_frida j] rc fin by simp
  have tr: "trace s2 = trace t @ pre @ [a]"
    using ios_wan_finally_run(2) [OF h1 h2 h3 h4, of w use_frida j] rc fin by simp
  have loop: "for_each [1 .. num_iterations ctx use_frida] (ios_wan_iteration w ctx use_frida)
                (s\<lparr>phone_pcap_name := None, phone_tcpdump_pid := None,
                   trace := trace s @ [MkdirTargetDir, SshCreateFolder]\<rparr>) = (Some e, s2)"
    unfolding upto_split3 [OF j1 j2]
    by (rule for_each_first_failure [OF before]) (simp add: it fin r)
  have ph: "ios_wan_iteration_phase w ctx use_frida s = (Some e, s2)"
    by (simp add: ios_wan_iteration_phase_def assign_def call_def mk cf loop)
  show "fst (ios_wan_iteration_phase w ctx use_frida s) = Some e" by (simp add: ph)
  show "trace (snd (ios_wan_iteration_phase w ctx use_frida s)) = trace t @ pre @ [a]"
    by (simp add: ph tr)
qed

text \<open>
  Claim C2, as amended. The clean-up calls are made in sequence and none is guarded on
  its own. In a \<open>finally\<close> block entered with its handles and file names set, and in
  \<open>clean_up\<close>: if the world makes a call of the sequence raise and lets the calls
  before it succeed, the sequence raises that error and the calls made are exactly
  those up to and including the failed one, so no later clean-up call is made.
  \<open>clean_up\<close> re-raises the error wrapped in \<open>ExperimentError\<close>, also for a failed
  write of the summary. An iteration is its \<open>finally\<close> block run in the state the
  guarded body leaves. In a phase, when the iterations before iteration \<open>j\<close> return
  and a clean-up call of iteration \<open>j\<close> raises, the error leaves the phase and the
  failed call is the last call of the phase. When the first stop call of the first
  iteration raises, the error leaves the phase whatever the body did.
\<close>

theorem cleanup_steps_unguarded:
  "(server_process s \<noteq> None \<and> phone_pcap_name s \<noteq> None
      \<and> android_lan_cleanup_calls use_frida s = pre @ a # post
      \<and> (\<forall>b \<in> set pre. cleanup_outcome w i b = None) \<and> cleanup_outcome w i a = Some e
      \<longrightarrow> fst (android_lan_finally w use_frida i s) = Some e
        \<and> trace (snd (android_lan_finally w use_frida i s)) = trace s @ pre @ [a])
   \<and> (server_process t \<noteq> None \<and> phone_pcap_name t \<noteq> None
      \<and> remote_pcap_name t \<noteq> None \<and> remote_tcpdump_filename t \<noteq> None
      \<and> ios_wan_cleanup_calls use_frida' t = pre' @ a' # post'
      \<and> (\<forall>b \<in> set pre'. cleanup_outcome w' i' b = None) \<and> cleanup_outcome w' i' a' = Some e'
      \<longrightarrow> fst (ios_wan_finally w' use_frida' i' t) = Some e'
        \<and> trace (snd (ios_wan_finally w' use_frida' i' t)) = trace t @ pre' @ [a'])
   \<and> (clean_up_calls = pre'' @ a'' # post''
      \<and> (\<forall>b \<in> set pre''. clean_up_outcome oc b = None) \<and> clean_up_outcome oc a'' = Some e''
      \<longrightarrow> fst (clean_up oc u) = Some (ExperimentError e'')
        \<and> trace (snd (clean_up oc u)) = trace u @ pre'' @ [a''])
   \<and> android_lan_iteration wa ctxa fa ia sa =
        android_lan_finally wa fa ia (android_lan_at_finally wa ctxa fa ia sa)
   \<and> ios_wan_iteration wb ctxb fb ib sb =
        ios_wan_finally wb fb ib (ios_wan_at_finally wb ctxb fb ib sb)
   \<and> (outcome wc 0 MkdirTargetDir = None \<and> 1 \<le> j \<and> j \<le> num_iterations ctxc fc
      \<and> for_each [1 .. j - 1] (android_lan_iteration wc ctxc fc)
            (sc\<lparr>phone_pcap_name := None, trace := trace sc @ [MkdirTargetDir]\<rparr>) = (None, sj)
      \<and> android_lan_at_finally wc ctxc fc j sj = tc
      \<and> server_process tc \<noteq> None \<and> phone_pcap_name tc \<noteq> None
      \<and> android_lan_cleanup_calls fc tc = pre_c @ ac # post_c
      \<and> (\<forall>b \<in> set pre_c. cleanup_outcome wc j b = None) \<and> cleanup_outcome wc j ac = Some ec
      \<longrightarrow> fst (android_lan_iteration_phase wc ctxc fc sc) = Some ec
        \<and> trace (snd (android_lan_iteration_phase wc ctxc fc sc)) = trace tc @ pre_c @ [ac])
   \<and> (outcome wd 0 MkdirTargetDir = None \<and> outcome wd 0 SshCreateFolder = None
      \<and> 1 \<le> k \<and> k \<le> num_iterations ctxd fd
      \<and> for_each [1 .. k - 1] (ios_wan_iteration wd ctxd fd)
            (sd\<lparr>phone_pcap_name := None, phone_tcpdump_pid := None,
                trace := trace sd @ [MkdirTargetDir, SshCreateFolder]\<rparr>) = (None, sk)
      \<and> ios_wan_at_finally wd ctxd fd k sk = td
      \<and> server_process td \<noteq> None \<and> phone_pcap_name td \<noteq> None
      \<and> remote_pcap_name td \<noteq> None \<and> remote_tcpdump_filename td \<noteq> None
      \<and> ios_wan_cleanup_calls fd td = pre_d @ ad # post_d
      \<and> (\<forall>b \<in> set pre_d. cleanup_outcome wd k b = None) \<and> cleanup_outcome wd k ad = Some ed
      \<longrightarrow> fst (ios_wan_iteration_phase wd ctxd fd sd) = Some ed
        \<and> trace (snd (ios_wan_iteration_phase wd ctxd fd sd)) = trace td @ pre_d @ [ad])
   \<and> (outcome wg 0 MkdirTargetDir = None \<and> 1 \<le> num_iterations ctxg fg
      \<and> outcome wg 1 StopPcapdroid = Some eg
      \<longrightarrow> fst (android_lan_iteration_phase wg ctxg fg sg) = Some eg
        \<and> last (trace (snd (android_lan_iteration_phase wg ctxg fg sg))) = StopPcapdroid)
   \<and> (outcome wh 0 MkdirTargetDir = None \<and> outcome wh 0 SshCreateFolder = None
      \<and> 1 \<le> num_iterations ctxh fh
      \<and> (\<forall>pid. outcome wh 1 (SshStopRemoteTcpdump RemoteServerSsh pid) = Some eh)
      \<longrightarrow> fst (ios_wan_iteration_phase wh ctxh fh sh) = Some eh
        \<and> is_stop_call (last (trace (snd (ios_wan_iteration_phase wh ctxh fh sh)))))"
proof (intro conjI impI)
  assume h: "server_process s \<noteq> None \<and> phone_pcap_name s \<noteq> None
      \<and> android_lan_cleanup_calls use_frida s = pre @ a # post
      \<and> (\<forall>b \<in> set pre. cleanup_outcome w i b = None) \<and> cleanup_outcome w i a = Some e"
  then have eq: "android_lan_cleanup_calls use_frida s = pre @ a # post"
    and ok: "\<forall>b \<in> set pre. cleanup_outcome w i b = None"
    and bad: "cleanup_outcome w i a = Some e"
    by blast+
  have rc: "run_calls (cleanup_outcome w i) (android_lan_cleanup_calls use_frida s)
      = (Some e, pre @ [a])"
    unfolding eq by (rule run_calls_first_failure [OF ok bad])
  from h have h1: "server_process s \<noteq> None" and h2: "phone_pcap_name s \<noteq> None"
    by blast+
  show "fst (android_lan_finally w use_frida i s) = Some e"
    using android_lan_finally_run(1) [OF h1 h2] rc by simp
  show "trace (snd (android_lan_finally w use_frida i s)) = trace s @ pre @ [a]"
    using android_lan_finally_run(2) [OF h1 h2] rc by simp
next
  assume h: "server_process t \<noteq> None \<and> phone_pcap_name t \<noteq> None
      \<and> remote_pcap_name t \<noteq> None \<and> remote_tcpdump_filename t \<noteq> None
      \<and> ios_wan_cleanup_calls use_frida' t = pre' @ a' # post'
      \<and> (\<forall>b \<in> set pre'. cleanup_outcome w' i' b = None) \<and> cleanup_outcome w' i' a' = Some e'"
  then have eq: "ios_wan_cleanup_calls use_frida' t = pre' @ a' # post'"
    and ok: "\<forall>b \<in> set pre'. cleanup_outcome w' i' b = None"
    and bad: "cleanup_outcome w' i' a' = Some e'"
    by blast+
  have rc: "run_calls (cleanup_outcome w' i') (ios_wan_cleanup_calls use_frida' t)
      = (Some e', pre' @ [a'])"
    unfolding eq by (rule run_calls_first_failure [OF ok bad])
  from h have h1: "server_process t \<noteq> None" and h2: "phone_pcap_name t \<noteq> None"
    and h3: "remote_pcap_name t \<noteq> None" and h4: "remote_tcpdump_filename t \<noteq> None"
    by blast+
  show "fst (ios_wan_finally w' use_frida' i' t) = Some e'"
    using ios_wan_finally_run(1) [OF h1 h2 h3 h4] rc by simp
  show "trace (snd (ios_wan_finally w' use_frida' i' t)) = trace t @ pre' @ [a']"
    using ios_wan_finally_run(2) [OF h1 h2 h3 h4] rc by simp
next
  assume h: "clean_up_calls = pre'' @ a'' # post''
      \<and> (\<forall>b \<in> set pre''. clean_up_outcome oc b = None) \<and> clean_up_outcome oc a'' = Some e''"
  then have eq: "clean_up_calls = pre'' @ a'' # post''"
    and ok: "\<forall>b \<in> set pre''. clean_up_outcome oc b = None"
    and bad: "clean_up_outcome oc a'' = Some e''"
    by blast+
  have rc: "run_calls (clean_up_outcome oc) clean_up_calls = (Some e'', pre'' @ [a''])"
    unfolding eq by (rule run_calls_first_failure [OF ok bad])
  show "fst (clean_up oc u) = Some (ExperimentError e'')"
    using clean_up_run(1) [of oc u] rc by simp
  show "trace (snd (clean_up oc u)) = trace u @ pre'' @ [a'']"
    using clean_up_run(2) [of oc u] rc by simp
next
  show "android_lan_iteration wa ctxa fa ia sa =
        android_lan_finally wa fa ia (android_lan_at_finally wa ctxa fa ia sa)"
    unfolding android_lan_at_finally_def by (rule android_lan_iteration_is_finally)
next
  show "ios_wan_iteration wb ctxb fb ib sb =
        ios_wan_finally wb fb ib (ios_wan_at_finally wb ctxb fb ib sb)"
    unfolding ios_wan_at_finally_def by (rule ios_wan_iteration_is_finally)
next
  assume h: "outcome wc 0 MkdirTargetDir = None \<and> 1 \<le> j \<and> j \<le> num_iterations ctxc fc
      \<and> for_each [1 .. j - 1] (android_lan_iteration wc ctxc fc)
            (sc\<lparr>phone_pcap_name := None, trace := trace sc @ [MkdirTargetDir]\<rparr>) = (None, sj)
      \<and> android_lan_at_finally wc ctxc fc j sj = tc
      \<and> server_process tc \<noteq> None \<and> phone_pcap_name tc \<noteq> None
      \<and> android_lan_cleanup_calls fc tc = pre_c @ ac # post_c
      \<and> (\<forall>b \<in> set pre_c. cleanup_outcome wc j b = None) \<and> cleanup_outcome wc j ac = Some ec"
  then have mk: "outcome wc 0 MkdirTargetDir = None" and j1: "1 \<le> j"
    and j2: "j \<le> num_iterations ctxc fc"
    and before: "for_each [1 .. j - 1] (android_lan_iteration wc ctxc fc)
            (sc\<lparr>phone_pcap_name := None, trace := trace sc @ [MkdirTargetDir]\<rparr>) = (None, sj)"
    and at: "android_lan_at_finally wc ctxc fc j sj = tc"
    and h1: "server_process tc \<noteq> None" and h2: "phone_pcap_name tc \<noteq> None"
    and eq: "android_lan_cleanup_calls fc tc = pre_c @ ac # post_c"
    and ok: "\<forall>b \<in> set pre_c. cleanup_outcome wc j b = None"
    and bad: "cleanup_outcome wc j ac = Some ec"
    by blast+
  show "fst (android_lan_iteration_phase wc ctxc fc sc) = Some ec"
    by (rule android_phase_cleanup_call_fails(1) [OF mk j1 j2 before at h1 h2 eq ok bad])
  show "trace (snd (android_lan_iteration_phase wc ctxc fc sc)) = trace tc @ pre_c @ [ac]"
    by (rule android_phase_cleanup_call_fails(2) [OF mk j1 j2 before at h1 h2 eq ok bad])
next
  assume h: "outcome wd 0 MkdirTargetDir = None \<and> outcome wd 0 SshCreateFolder = None
      \<and> 1 \<le> k \<and> k \<le> num_iterations ctxd fd
      \<and> for_each [1 .. k - 1] (ios_wan_iteration wd ctxd fd)
            (sd\<lparr>phone_pcap_name := None, phone_tcpdump_pid := None,
                trace := trace sd @ [MkdirTargetDir, SshCreateFolder]\<rparr>) = (None, sk)
      \<and> ios_wan_at_finally wd ctxd fd k sk = td
      \<and> server_process td \<noteq> None \<and> phone_pcap_name td \<noteq> None
      \<and> remote_pcap_name td \<noteq> None \<and> remote_tcpdump_filename td \<noteq> None
      \<and> ios_wan_cleanup_calls fd td = pre_d @ ad # post_d
      \<and> (\<forall>b \<in> set pre_d. cleanup_outcome wd k b = None) \<and> cleanup_outcome wd k ad = Some ed"
  then have mk: "outcome wd 0 MkdirTargetDir = None" and cf: "outcome wd 0 SshCreateFolder = None"
    and k1: "1 \<le> k" and k2: "k \<le> num_iterations ctxd fd"
    and before: "for_each [1 .. k - 1] (ios_wan_iteration wd ctxd fd)
            (sd\<lparr>phone_pcap_name := None, phone_tcpdump_pid := None,
                trace := trace sd @ [MkdirTargetDir, SshCreateFolder]\<rparr>) = (None, sk)"
    and at: "ios_wan_at_finally wd ctxd fd k sk = td"
    and h1: "server_process td \<noteq> None" and h2: "phone_pcap_name td \<noteq> None"
    and h3: "remote_pcap_name td \<noteq> None" and h4: "remote_tcpdump_filename td \<noteq> None"
    and eq: "ios_wan_cleanup_calls fd td = pre_d @ ad # post_d"
    and ok: "\<forall>b \<in> set pre_d. cleanup_outcome wd k b = None"
    and bad: "cleanup_outcome wd k ad = Some ed"
    by blast+
  show "fst (ios_wan_iteration_phase wd ctxd fd sd) = Some ed"
    by (rule ios_wan_phase_cleanup_call_fails(1) [OF mk cf k1 k2 before at h1 h2 h3 h4 eq ok bad])
  show "trace (snd (ios_wan_iteration_phase wd ctxd fd sd)) = trace td @ pre_d @ [ad]"
    by (rule ios_wan_phase_cleanup_call_fails(2) [OF mk cf k1 k2 before at h1 h2 h3 h4 eq ok bad])
next
  assume h: "outcome wg 0 MkdirTargetDir = None \<and> 1 \<le> num_iterations ctxg fg
      \<and> outcome wg 1 StopPcapdroid = Some eg"
  then have h1: "outcome wg 0 MkdirTargetDir = None" and h2: "1 \<le> num_iterations ctxg fg"
    and h3: "outcome wg 1 StopPcapdroid = Some eg"
    by blast+
  show "fst (android_lan_iteration_phase wg ctxg fg sg) = Some eg"
    by (rule android_phase_first_stop_fails(1) [OF h1 h2 h3])
  show "last (trace (snd (android_lan_iteration_phase wg ctxg fg sg))) = StopPcapdroid"
    by (rule android_phase_first_stop_fails(2) [OF h1 h2 h3])
next
  assume h: "outcome wh 0 MkdirTargetDir = None \<and> outcome wh 0 SshCreateFolder = None
      \<and> 1 \<le> num_iterations ctxh fh
      \<and> (\<forall>pid. outcome wh 1 (SshStopRemoteTcpdump RemoteServerSsh pid) = Some eh)"
  then have h1: "outcome wh 0 MkdirTargetDir = None" and h2: "outcome wh 0 SshCreateFolder = None"
    and h3: "1 \<le> num_iterations ctxh fh"
    and h4: "\<forall>pid. outcome wh 1 (SshStopRemoteTcpdump RemoteServerSsh pid) = Some eh"
    by blast+
  show "fst (ios_wan_iteration_phase wh ctxh fh sh) = Some eh"
    by (rule ios_wan_phase_first_stop_fails(1) [OF h1 h2 h3 h4])
  show "is_stop_call (last (trace (snd (ios_wan_iteration_phase wh ctxh fh sh))))"
    by (rule ios_wan_phase_first_stop_fails(2) [OF h1 h2 h3 h4])
qed

text \<open>
  Instances. Pulling the capture file fails in the Android block, after the captures
  and the processes have been stopped; the relay cannot be reached in the iOS
  cross-network block; uninstalling fails in \<open>clean_up\<close>. In a baseline phase of two
  iterations, pulling the capture file fails in the first Android iteration and the
  relay cannot be reached in the first iOS iteration; stopping the device capture
  fails in the first Android iteration.
\<close>

theorem cleanup_steps_unguarded_witness:
  "fst (android_lan_finally pull_fails_world True 1 android_instrumented_state) =
     Some (CalledProcessError 1 [''adb''] None None)
   \<and> trace (snd (android_lan_finally pull_fails_world True 1 android_instrumented_state)) =
     [StopPcapdroid, KillTree ServerTcpdump, KillTree Mitmdump, KillTree Frida,
      PullFileToServer ''iteration-1-frida-phone-lamp.pcap'']
   \<and> fst (ios_wan_finally relay_unreachable_world True 1 ios_wan_instrumented_state) =
     Some (SshError ''Failed to connect'')
   \<and> trace (snd (ios_wan_finally relay_unreachable_world True 1 ios_wan_instrumented_state)) =
     [SshStopRemoteTcpdump RemoteServerSsh (Some 700)]
   \<and> fst (clean_up uninstall_fails initial_state) =
     Some (ExperimentError (CalledProcessError 1 [''adb''] None None))
   \<and> trace (snd (clean_up uninstall_fails initial_state)) = [PullBluetoothLog, UninstallApp]
   \<and> fst (android_lan_iteration_phase pull_fails_world (lamp_context Android Lan 2 1)
             False initial_state) = Some (CalledProcessError 1 [''adb''] None None)
   \<and> trace (snd (android_lan_iteration_phase pull_fails_world (lamp_context Android Lan 2 1)
                    False initial_state)) =
     [MkdirTargetDir, ServerStartTcpdump,
      StartPcapdroid ''iteration-1-no_frida-phone-lamp.pcap'', StartApp,
      TimedSleep ''start_app'', TriggerTaps, TimedSleep ''between_iterations'',
      StopPcapdroid, KillTree ServerTcpdump,
      PullFileToServer ''iteration-1-no_frida-phone-lamp.pcap'']
   \<and> fst (ios_wan_iteration_phase relay_unreachable_world (lamp_context IOS Wan 2 1)
             False initial_state) = Some (SshError ''Failed to connect'')
   \<and> trace (snd (ios_wan_iteration_phase relay_unreachable_world (lamp_context IOS Wan 2 1)
                    False initial_state)) =
     [MkdirTargetDir, SshCreateFolder, ServerStartTcpdump,
      SshStartRemoteTcpdump PhoneSsh ''iteration-1-no_frida-phone-lamp.pcap'',
      SshStartRemoteTcpdump RemoteServerSsh ''/tmp/iteration-1-no_frida-remote-lamp.pcap'',
      StartApp, TimedSleep ''start_app'', TriggerTaps, TimedSleep ''between_iterations'',
      SshStopRemoteTcpdump RemoteServerSsh (Some 700)]
   \<and> fst (android_lan_iteration_phase stop_capture_fails_world (lamp_context Android Lan 2 1)
             False initial_state) = Some (CalledProcessError 1 [''adb''] None None)
   \<and> last (trace (snd (android_lan_iteration_phase stop_capture_fails_world
                          (lamp_context Android Lan 2 1) False initial_state))) = StopPcapdroid
   \<and> is_stop_call (last (trace (snd (ios_wan_iteration_phase relay_unreachable_world
                                        (lamp_context IOS Wan 2 1) False initial_state))))"
  using cleanup_steps_unguarded
    [where s = android_instrumented_state and use_frida = True and w = pull_fails_world
       and i = 1
       and pre = "[StopPcapdroid, KillTree ServerTcpdump, KillTree Mitmdump, KillTree Frida]"
       and a = "PullFileToServer ''iteration-1-frida-phone-lamp.pcap''"
       and post = "[DeleteFileFromPhone ''iteration-1-frida-phone-lamp.pcap'', ApplyRules Down,
                    StopApp, TimedSleep ''stop_app'']"
       and e = "CalledProcessError 1 [''adb''] None None"
       and t = ios_wan_instrumented_state and use_frida' = True
       and w' = relay_unreachable_world and i' = 1 and pre' = "[]"
       and a' = "SshStopRemoteTcpdump RemoteServerSsh (Some 700)"
       and post' = "[PhoneStopTcpdump (Some 500), KillTree ServerTcpdump, KillTree Mitmdump,
                     KillTree Objection,
                     DownloadRemoteFile PhoneSsh ''iteration-1-frida-phone-lamp.pcap'',
                     DownloadRemoteFile RemoteServerSsh ''/tmp/iteration-1-frida-remote-lamp.pcap'',
                     ResetTerminal, ApplyRules Down, StopApp, TimedSleep ''stop_app'']"
       and e' = "SshError ''Failed to connect''"
       and oc = uninstall_fails and u = initial_state and pre'' = "[PullBluetoothLog]"
       and a'' = UninstallApp and post'' = "[Reboot, WriteSummary]"
       and e'' = "CalledProcessError 1 [''adb''] None None"
       and wc = pull_fails_world and ctxc = "lamp_context Android Lan 2 1" and fc = False
       and j = 1 and sc = initial_state
       and sj = "initial_state\<lparr>phone_pcap_name := None, trace := [MkdirTargetDir]\<rparr>"
       and tc = "initial_state\<lparr>trace := [MkdirTargetDir, ServerStartTcpdump,
                    StartPcapdroid ''iteration-1-no_frida-phone-lamp.pcap'', StartApp,
                    TimedSleep ''start_app'', TriggerTaps, TimedSleep ''between_iterations''],
                  phone_pcap_name := Some ''iteration-1-no_frida-phone-lamp.pcap'',
                  server_process := Some ServerTcpdump\<rparr>"
       and pre_c = "[StopPcapdroid, KillTree ServerTcpdump]"
       and ac = "PullFileToServer ''iteration-1-no_frida-phone-lamp.pcap''"
       and post_c = "[DeleteFileFromPhone ''iteration-1-no_frida-phone-lamp.pcap'',
                      StopApp, TimedSleep ''stop_app'']"
       and ec = "CalledProcessError 1 [''adb''] None None"
       and wd = relay_unreachable_world and ctxd = "lamp_context IOS Wan 2 1" and fd = False
       and k = 1 and sd = initial_state
       and sk = "initial_state\<lparr>phone_pcap_name := None, phone_tcpdump_pid := None,
                   trace := [MkdirTargetDir, SshCreateFolder]\<rparr>"
       and td = "initial_state\<lparr>trace := [MkdirTargetDir, SshCreateFolder, ServerStartTcpdump,
                    SshStartRemoteTcpdump PhoneSsh ''iteration-1-no_frida-phone-lamp.pcap'',
                    SshStartRemoteTcpdump RemoteServerSsh
                      ''/tmp/iteration-1-no_frida-remote-lamp.pcap'',
                    StartApp, TimedSleep ''start_app'', TriggerTaps,
                    TimedSleep ''between_iterations''],
                  phone_pcap_name := Some ''iteration-1-no_frida-phone-lamp.pcap'',
                  phone_tcpdump_pid := Some 500, server_process := Some ServerTcpdump,
                  remote_pid := Some 700,
                  remote_tcpdump_filename := Some ''/tmp/iteration-1-no_frida-remote-lamp.pcap'',
                  remote_pcap_name := Some ''iteration-1-no_frida-remote-lamp.pcap''\<rparr>"
       and pre_d = "[]"
       and ad = "SshStopRemoteTcpdump RemoteServerSsh (Some 700)"
       and post_d = "[PhoneStopTcpdump (Some 500), KillTree ServerTcpdump,
                      DownloadRemoteFile PhoneSsh ''iteration-1-no_frida-phone-lamp.pcap'',
                      DownloadRemoteFile RemoteServerSsh
                        ''/tmp/iteration-1-no_frida-remote-lamp.pcap'',
                      StopApp, TimedSleep ''stop_app'']"
       and ed = "SshError ''Failed to connect''"
       and wg = stop_capture_fails_world and ctxg = "lamp_context Android Lan 2 1"
       and fg = False and sg = initial_state
       and eg = "CalledProcessError 1 [''adb''] None None"
       and wh = relay_unreachable_world and ctxh = "lamp_context IOS Wan 2 1"
       and fh = False and sh = initial_state and eh = "SshError ''Failed to connect''"]
  by (simp add: android_lan_cleanup_calls_def ios_wan_cleanup_calls_def clean_up_calls_def
      handle_calls_def cleanup_outcome_def clean_up_outcome_def pull_fails_world_def
      relay_unreachable_world_def uninstall_fails_def stop_capture_fails_world_def
      calm_world_def android_instrumented_state_def ios_wan_instrumented_state_def
      initial_state_def lamp_context_def num_iterations_def
      android_lan_at_finally_def ios_wan_at_finally_def android_lan_body_def ios_wan_body_def
      stmt_defs run_defs str_int_1 upto.simps)

text \<open>
  A baseline phase of two iterations in which stopping the device capture fails: the
  first clean-up ends at that call, the server capture is not killed, the file is not
  retrieved, the app is not stopped, and the error leaves the phase before the second
  iteration. And a run-level clean-up in which uninstalling fails: the phone is not
  rebooted and the summary is not written.
\<close>

theorem cleanup_steps_unguarded_counterexample:
  "fst (android_lan_iteration_phase stop_capture_fails_world (lamp_context Android Lan 2 1)
          False initial_state) = Some (CalledProcessError 1 [''adb''] None None)
   \<and> trace (snd (android_lan_iteration_phase stop_capture_fails_world
                    (lamp_context Android Lan 2 1) False initial_state)) =
       [MkdirTargetDir, ServerStartTcpdump,
        StartPcapdroid ''iteration-1-no_frida-phone-lamp.pcap'', StartApp,
        TimedSleep ''start_app'', TriggerTaps, TimedSleep ''between_iterations'',
        StopPcapdroid]
   \<and> fst (clean_up uninstall_fails initial_state) =
       Some (ExperimentError (CalledProcessError 1 [''adb''] None None))
   \<and> trace (snd (clean_up uninstall_fails initial_state)) = [PullBluetoothLog, UninstallApp]"
  by (simp add: android_lan_iteration_phase_def android_lan_iteration_def android_lan_body_def
      android_lan_finally_def android_lan_finally_steps_def clean_up_def clean_up_steps_def
      stmt_defs run_defs stop_capture_fails_world_def uninstall_fails_def str_int_1
      upto.simps)

section \<open>Properties of the phase loop\<close>

text \<open>
  Claim C1 at two inputs. In an instrumented phase whose first iteration fails to apply
  the redirection rules, and in a baseline phase whose first iteration fails to start
  the server capture, \<open>server_process\<close> is still \<open>None\<close> when the \<open>finally\<close> block
  reaches \<open>server_process.kill_tree()\<close>: the \<open>AttributeError\<close> leaves the phase, no
  entry is recorded for the iteration that was entered, and no further iteration runs.
\<close>

theorem iteration_phase_omits_entry:
  "android_lan_iteration_phase rules_fail_world (lamp_context Android Lan 2 1) True initial_state =
     (Some (AttributeError ''NoneType object has no attribute kill_tree''),
      initial_state\<lparr>trace := [MkdirTargetDir, ApplyRules Up, StopPcapdroid],
                     success := False\<rparr>)
   \<and> results (snd (android_lan_iteration_phase rules_fail_world (lamp_context Android Lan 2 1)
                      True initial_state)) = []
   \<and> android_lan_iteration_phase tcpdump_missing_world (lamp_context Android Lan 2 1) False
        initial_state =
     (Some (AttributeError ''NoneType object has no attribute kill_tree''),
      initial_state\<lparr>trace := [MkdirTargetDir, ServerStartTcpdump, StopPcapdroid],
                     success := False\<rparr>)"
  by (simp add: android_lan_iteration_phase_def android_lan_iteration_def android_lan_body_def
      android_lan_finally_def android_lan_finally_steps_def
      stmt_defs run_defs rules_fail_world_def tcpdump_missing_world_def str_int_1 upto.simps)

section \<open>Properties of the stop calls of the iOS runners\<close>








end
